theory Spec2Isabelle
  imports Complex_Main "HOL-Library.Word" "HOL-Library.Multiset"
begin

section \<open>Images and the library operations used by ssimx.cpp\<close>

text \<open>
  A \<open>cv::Mat\<close> is a header (rows, cols, channels) and an element buffer.  The decoded
  8-bit inputs keep their buffer as the list of their pixels in row-major order, each
  pixel the list of its samples; \<open>None\<close> is the null data pointer that
  \<open>Mat::release()\<close> leaves behind.  The \<open>double\<close> images of the pipeline are read
  through \<open>at(y, x)[c]\<close> only, so their buffer is the function from row, column and
  channel to the sample.  A \<open>double\<close> is modelled by a real number; division by
  zero is written out where the program divides.
\<close>

type_synonym uchar = "8 word"

record 'a Mat =
  rows :: nat
  cols :: nat
  channels :: nat
  data :: 'a

type_synonym Mat8U = "(uchar list list option) Mat"
type_synonym Mat64F = "(nat \<Rightarrow> nat \<Rightarrow> nat \<Rightarrow> real) Mat"
type_synonym Scalar = "real list"

text \<open>Every 8-bit image that the decoder hands over holds \<open>rows * cols\<close> pixels of
  \<open>channels\<close> samples each.\<close>

definition wf_Mat8U :: "Mat8U \<Rightarrow> bool" where
  "wf_Mat8U m = (case data m of None \<Rightarrow> False
     | Some d \<Rightarrow> length d = rows m * cols m \<and> list_all (\<lambda>p. length p = channels m) d)"

datatype error =
    DimensionMismatch
  | ImageTooSmall
  | ChannelMismatch
  | UnsupportedChannelCount
  | NullDataRead
  | CvException

text \<open>\<open>Mat::release()\<close>: the buffer is dropped, the data pointer and the sizes are zeroed.\<close>

definition release :: "Mat8U \<Rightarrow> Mat8U" where
  "release m = m\<lparr>rows := 0, cols := 0, data := None\<rparr>"

text \<open>\<open>m.at<uchar>(i)\<close> on a one-channel image: reading through the null data pointer
  of a released image is the crash of the program.\<close>

definition at_uchar :: "Mat8U \<Rightarrow> nat \<Rightarrow> error + uchar" where
  "at_uchar m i = (case data m of None \<Rightarrow> Inl NullDataRead | Some d \<Rightarrow> Inr (d ! i ! 0))"

text \<open>\<open>m.at<double>(i) = v\<close> and pixel \<open>i\<close> of a continuous image: row \<open>i div cols\<close>,
  column \<open>i mod cols\<close>.\<close>

definition at_put :: "Mat64F \<Rightarrow> nat \<Rightarrow> nat \<Rightarrow> real \<Rightarrow> Mat64F" where
  "at_put m i c v = m\<lparr>data := (\<lambda>y x k.
     if y = i div cols m \<and> x = i mod cols m \<and> k = c then v else data m y x k)\<rparr>"

definition at_get :: "Mat64F \<Rightarrow> nat \<Rightarrow> nat \<Rightarrow> real" where
  "at_get m i c = data m (i div cols m) (i mod cols m) c"

text \<open>\<open>cvRound\<close>: the nearest integer, a tie going to the even one.\<close>

definition cvRound :: "real \<Rightarrow> int" where
  "cvRound r = (let f = \<lfloor>r\<rfloor>; d = r - of_int f in
     if d < 1 / 2 then f else if 1 / 2 < d then f + 1 else if even f then f else f + 1)"

text \<open>
  The image primitives of OpenCV whose arithmetic the program does not contain are
  parameters of the model: \<open>blur\<close> gives the samples of \<open>GaussianBlur(src, dst, ksize, sigma)\<close>,
  \<open>area\<close> the samples of \<open>resize(src, dst, Size(), fx, fy, INTER_AREA)\<close> at the
  destination size \<open>(rows, cols)\<close>.
\<close>

record primitives =
  blur :: "Mat64F \<Rightarrow> nat \<times> nat \<Rightarrow> real \<Rightarrow> nat \<Rightarrow> nat \<Rightarrow> nat \<Rightarrow> real"
  area :: "Mat64F \<Rightarrow> nat \<times> nat \<Rightarrow> nat \<Rightarrow> nat \<Rightarrow> nat \<Rightarrow> real"

definition GaussianBlur :: "primitives \<Rightarrow> Mat64F \<Rightarrow> nat \<times> nat \<Rightarrow> real \<Rightarrow> Mat64F" where
  "GaussianBlur P src ksize sigma = src\<lparr>data := blur P src ksize sigma\<rparr>"

definition resize :: "primitives \<Rightarrow> Mat64F \<Rightarrow> real \<Rightarrow> real \<Rightarrow> Mat64F" where
  "resize P src fx fy =
     (let r = nat (cvRound (real (rows src) * fy)); c = nat (cvRound (real (cols src) * fx))
      in \<lparr>rows = r, cols = c, channels = channels src, data = area P src (r, c)\<rparr>)"

text \<open>Element-wise arithmetic; the header of the result is that of the first operand
  (the operands of ssimx.cpp always have one size).\<close>

definition multiply :: "Mat64F \<Rightarrow> Mat64F \<Rightarrow> real \<Rightarrow> Mat64F" where
  "multiply a b scale = a\<lparr>data := (\<lambda>y x c. scale * data a y x c * data b y x c)\<rparr>"

definition addWeighted :: "Mat64F \<Rightarrow> real \<Rightarrow> Mat64F \<Rightarrow> real \<Rightarrow> real \<Rightarrow> Mat64F" where
  "addWeighted a alpha b beta gamma =
     a\<lparr>data := (\<lambda>y x c. data a y x c * alpha + data b y x c * beta + gamma)\<rparr>"

definition add_Scalar :: "Mat64F \<Rightarrow> Scalar \<Rightarrow> Mat64F" where
  "add_Scalar a s = a\<lparr>data := (\<lambda>y x c. data a y x c + s ! c)\<rparr>"

definition Scalar_minus :: "Scalar \<Rightarrow> Mat64F \<Rightarrow> Mat64F" where
  "Scalar_minus s a = a\<lparr>data := (\<lambda>y x c. s ! c - data a y x c)\<rparr>"

definition add_Mat :: "Mat64F \<Rightarrow> Mat64F \<Rightarrow> Mat64F" where
  "add_Mat a b = a\<lparr>data := (\<lambda>y x c. data a y x c + data b y x c)\<rparr>"

definition sub_Mat :: "Mat64F \<Rightarrow> Mat64F \<Rightarrow> Mat64F" where
  "sub_Mat a b = a\<lparr>data := (\<lambda>y x c. data a y x c - data b y x c)\<rparr>"

definition abs_Mat :: "Mat64F \<Rightarrow> Mat64F" where
  "abs_Mat a = a\<lparr>data := (\<lambda>y x c. \<bar>data a y x c\<bar>)\<rparr>"

definition max_Mat :: "Mat64F \<Rightarrow> real \<Rightarrow> Mat64F" where
  "max_Mat a s = a\<lparr>data := (\<lambda>y x c. max (data a y x c) s)\<rparr>"

definition pow_Mat :: "Mat64F \<Rightarrow> nat \<Rightarrow> Mat64F" where
  "pow_Mat a n = a\<lparr>data := (\<lambda>y x c. data a y x c ^ n)\<rparr>"

text \<open>\<open>a /= b\<close>.  Where a sample of \<open>b\<close> is 0 the \<open>double\<close> quotient is an infinity or
  a NaN and leaves the real numbers; the one divisor of main, the SSIM denominator, has no
  zero sample when the blur is a mean (\<open>ssim_denominator_pos\<close> below).\<close>

definition divide_Mat :: "Mat64F \<Rightarrow> Mat64F \<Rightarrow> Mat64F" where
  "divide_Mat a b = a\<lparr>data := (\<lambda>y x c. data a y x c / data b y x c)\<rparr>"

text \<open>\<open>mean(m(Rect(x0, y0, w, h)))[c]\<close>: the sum of the samples of channel \<open>c\<close> over the
  rectangle divided by their number; 0 for a channel the image does not have and for a
  rectangle without pixels.\<close>

definition mean_roi :: "Mat64F \<Rightarrow> nat \<Rightarrow> nat \<Rightarrow> nat \<Rightarrow> nat \<Rightarrow> nat \<Rightarrow> real" where
  "mean_roi m x0 y0 w h c =
     (if c < channels m \<and> 0 < w * h
      then (\<Sum>y\<leftarrow>[y0..<y0 + h]. \<Sum>x\<leftarrow>[x0..<x0 + w]. data m y x c) / real (w * h)
      else 0)"

definition mean :: "Mat64F \<Rightarrow> Scalar" where
  "mean m = map (mean_roi m 0 0 (cols m) (rows m)) [0..<4]"

text \<open>\<open>split\<close> followed by \<open>minMaxLoc(plane, &minVal)\<close>: the least sample of channel
  \<open>c\<close>, and 0 for an image without pixels.\<close>

definition minVal :: "Mat64F \<Rightarrow> nat \<Rightarrow> real" where
  "minVal m c =
     (let vs = concat (map (\<lambda>y. map (\<lambda>x. data m y x c) [0..<cols m]) [0..<rows m])
      in if vs = [] then 0 else min_list vs)"

section \<open>Constants of ssimx.cpp\<close>

definition C1 :: real where "C1 = 0.0001"
definition C2 :: real where "C2 = 0.0004"

definition scale_weights :: "real list list" where
  "scale_weights =
    [[0.0448, 0.2856, 0.3001, 0.2363, 0.1333, 0.1],
     [0.015, 0.0448, 0.2856, 0.3001, 0.3363, 0.25],
     [0.015, 0.0448, 0.2856, 0.3001, 0.3363, 0.25],
     [0.0448, 0.2856, 0.3001, 0.2363, 0.1333, 0.1]]"

definition chroma_weight :: real where "chroma_weight = 0.2"

definition mscale_weights :: "real list list" where
  "mscale_weights =
    [[0.2, 0.3, 0.25, 0.2, 0.12, 0.05],
     [0.01, 0.05, 0.2, 0.3, 0.35, 0.35],
     [0.01, 0.05, 0.2, 0.3, 0.35, 0.35],
     [0.2, 0.3, 0.25, 0.2, 0.12, 0.05]]"

definition min_weight :: "real list" where
  "min_weight = [0.1, 0.005, 0.005, 0.005]"

definition extra_edges_weight :: "real list" where
  "extra_edges_weight = [1.5, 0.1, 0.1, 0.5]"

definition worst_grid_weight :: "real list list" where
  "worst_grid_weight = [[1.0, 0.1, 0.1, 0.5], [1.0, 0.1, 0.1, 0.5]]"

definition sC1 :: Scalar where
  "sC1 = [C1, C1, C1, C1]"

section \<open>grid\_artifacts\<close>

text \<open>The \<open>multiset<double>\<close> of one channel is the ascending list of the values
  inserted so far.\<close>

definition row_scores :: "Mat64F \<Rightarrow> nat \<Rightarrow> real list" where
  "row_scores errormap i =
     fold (\<lambda>y s. insort (mean_roi errormap 0 y (cols errormap) 1 i) s) [0..<rows errormap] []"

definition col_scores :: "Mat64F \<Rightarrow> nat \<Rightarrow> real list" where
  "col_scores errormap i =
     fold (\<lambda>x s. insort (mean_roi errormap x 0 1 (rows errormap) i) s) [0..<cols errormap] []"

text \<open>\<open>int k = 0; for (const double& s : scores) { if (k++ >= n) { ... s ...; break; } }\<close>:
  the value the loop body reaches, if it reaches one.\<close>

fun worst_entry :: "nat \<Rightarrow> nat \<Rightarrow> real list \<Rightarrow> real option" where
  "worst_entry k n [] = None"
| "worst_entry k n (s # ss) = (if k \<ge> n then Some s else worst_entry (k + 1) n ss)"

definition grid_channel :: "real list \<Rightarrow> nat \<Rightarrow> real \<Rightarrow> real \<times> real \<Rightarrow> real \<times> real" where
  "grid_channel scores n w acc =
     (case acc of (score, score_max) \<Rightarrow>
        ((case worst_entry 0 n scores of Some s \<Rightarrow> score + w * s | None \<Rightarrow> score),
         score_max + w))"

definition grid_artifacts :: "Mat64F \<Rightarrow> nat \<Rightarrow> real \<times> real \<Rightarrow> nat \<Rightarrow> real \<times> real" where
  "grid_artifacts errormap nChan acc twice =
     (let acc = fold (\<lambda>i. grid_channel (row_scores errormap i) (rows errormap div 50)
                            (worst_grid_weight ! twice ! i)) [0..<nChan] acc
      in fold (\<lambda>i. grid_channel (col_scores errormap i) (cols errormap div 50)
                            (worst_grid_weight ! twice ! i)) [0..<nChan] acc)"

section \<open>The scale loop of main\<close>

text \<open>The SSIM numerator, built as main builds it: \<open>img1_img2\<close>, \<open>sigma12\<close> and
  \<open>mu1_mu2\<close> are overwritten in place in the order of the source.\<close>

definition ssim_numerator :: "primitives \<Rightarrow> Mat64F \<Rightarrow> Mat64F \<Rightarrow> Mat64F \<Rightarrow> Mat64F \<Rightarrow> Mat64F" where
  "ssim_numerator P img1 img2 mu1 mu2 =
     (let img1_img2 = multiply img1 img2 1;
          sigma12 = GaussianBlur P img1_img2 (11, 11) 1.5;
          mu1_mu2 = multiply mu1 mu2 2;
          sigma12 = addWeighted sigma12 2 mu1_mu2 (- 1) C2;
          mu1_mu2 = add_Scalar mu1_mu2 sC1
      in multiply mu1_mu2 sigma12 1)"

text \<open>The SSIM denominator: \<open>mu1\<close> and \<open>sigma1_sq\<close> are overwritten in place.  The squares
  \<open>img1_sq\<close>, \<open>img2_sq\<close> are taken before \<open>img1\<close>, \<open>img2\<close> are resized.\<close>

definition ssim_denominator :: "primitives \<Rightarrow> Mat64F \<Rightarrow> Mat64F \<Rightarrow> Mat64F \<Rightarrow> Mat64F \<Rightarrow> Mat64F" where
  "ssim_denominator P img1 img2 mu1 mu2 =
     (let img1_sq = pow_Mat img1 2;
          img2_sq = pow_Mat img2 2;
          mu1 = pow_Mat mu1 2;
          mu2 = pow_Mat mu2 2;
          mu1 = add_Mat mu1 mu2;
          sigma1_sq = GaussianBlur P img1_sq (11, 11) 1.5;
          sigma2_sq = GaussianBlur P img2_sq (11, 11) 1.5;
          sigma1_sq = addWeighted sigma1_sq 1 sigma2_sq 1 0;
          sigma1_sq = addWeighted sigma1_sq 1 mu1 (- 1) C2;
          mu1 = add_Scalar mu1 sC1
      in multiply mu1 sigma1_sq 1)"

text \<open>The artifact-edge map of scale 0, after \<open>edgediff = Scalar(1.0, 1.0, 1.0, 1.0) - edgediff\<close>.\<close>

definition edgediff :: "Mat64F \<Rightarrow> Mat64F \<Rightarrow> Mat64F \<Rightarrow> Mat64F \<Rightarrow> Mat64F" where
  "edgediff img1 img2 mu1 mu2 =
     (let edgediff = max_Mat (sub_Mat (abs_Mat (sub_Mat img2 mu2)) (abs_Mat (sub_Mat img1 mu1))) 0
      in Scalar_minus [1.0, 1.0, 1.0, 1.0] edgediff)"

text \<open>The block \<open>if (scale == 0) { ... }\<close> on the two accumulators.\<close>

definition edge_penalty ::
  "nat \<Rightarrow> Mat64F \<Rightarrow> Mat64F \<Rightarrow> Mat64F \<Rightarrow> Mat64F \<Rightarrow> real \<times> real \<Rightarrow> real \<times> real" where
  "edge_penalty nChan img1 img2 mu1 mu2 acc =
     (let edgediff = edgediff img1 img2 mu1 mu2;
          avg = mean edgediff;
          acc = fold (\<lambda>i (score, score_max).
                  (score + extra_edges_weight ! i * avg ! i, score_max + extra_edges_weight ! i))
                  [0..<nChan] acc
      in grid_artifacts edgediff nChan acc 1)"

record scale_state =
  img1 :: Mat64F
  img2 :: Mat64F
  score :: real
  score_max :: real

text \<open>One pass through the body of \<open>for (int scale = 0; scale < 6; scale++)\<close>, after its
  \<open>break\<close> test.  The debug images written when a third argument is given do not touch
  the state and are left out.\<close>

definition scale_step :: "primitives \<Rightarrow> nat \<Rightarrow> nat \<Rightarrow> scale_state \<Rightarrow> scale_state" where
  "scale_step P nChan scale st =
     (let mu1 = GaussianBlur P (img1 st) (11, 11) 1.5;
          mu2 = GaussianBlur P (img2 st) (11, 11) 1.5;
          mu1_mu2 = ssim_numerator P (img1 st) (img2 st) mu1 mu2;
          acc = (score st, score_max st);
          acc = (if scale = 0 then edge_penalty nChan (img1 st) (img2 st) mu1 mu2 acc else acc);
          img1' = resize P (img1 st) 0.5 0.5;
          img2' = resize P (img2 st) 0.5 0.5;
          mu1 = ssim_denominator P (img1 st) (img2 st) mu1 mu2;
          ssim_map = divide_Mat mu1_mu2 mu1;
          acc = (if scale = 0 then grid_artifacts ssim_map nChan acc 0 else acc);
          avg = mean ssim_map;
          acc = fold (\<lambda>i (score, score_max).
                  (score + (if i > 0 then chroma_weight else 1.0) * avg ! i * scale_weights ! i ! scale,
                   score_max + (if i > 0 then chroma_weight else 1.0) * scale_weights ! i ! scale))
                  [0..<nChan] acc;
          ssim_map = resize P ssim_map 0.25 0.25;
          acc = fold (\<lambda>i (score, score_max).
                  (score + min_weight ! i * minVal ssim_map i * mscale_weights ! i ! scale,
                   score_max + min_weight ! i * mscale_weights ! i ! scale))
                  [0..<nChan] acc
      in \<lparr>img1 = img1', img2 = img2', score = fst acc, score_max = snd acc\<rparr>)"

text \<open>The loop itself; the result carries the value of \<open>scale\<close> at which it stopped,
  the number of passes made.\<close>

function scale_loop :: "primitives \<Rightarrow> nat \<Rightarrow> nat \<Rightarrow> scale_state \<Rightarrow> nat \<times> scale_state" where
  "scale_loop P nChan scale st =
     (if scale < 6
      then (if cols (img1 st) < 8 \<or> rows (img1 st) < 8 then (scale, st)
            else scale_loop P nChan (scale + 1) (scale_step P nChan scale st))
      else (scale, st))"
  by pat_completeness auto
termination
  by (relation "measure (\<lambda>(P, nChan, scale, st). 6 - scale)") auto

declare scale_loop.simps [simp del]

text \<open>
  \<open>score = score_max / score - 1; if (score < 0) score = 0; if (score > 1) score = 1;\<close>
  A \<open>double\<close> division by zero gives an infinity of the sign of the numerator, which the
  two tests turn into 0 or 1, and 0 / 0 gives a NaN, which passes both tests and is
  printed: \<open>None\<close>.  (\<open>score\<close> starts from +0 and only receives additions, so it is never
  the negative zero.)
\<close>

definition final_score :: "real \<Rightarrow> real \<Rightarrow> real option" where
  "final_score s s_max =
     (if s = 0
      then (if s_max = 0 then None else if s_max < 0 then Some 0 else Some 1)
      else (let score = s_max / s - 1;
                score = (if score < 0 then 0 else score);
                score = (if score > 1 then 1 else score)
            in Some score))"

text \<open>From \<open>double score = 0, score_max = 0;\<close> to the printed value.  \<open>multiply(img1, img2, ...)\<close>
  throws for operands of different channel counts.\<close>

definition score_images :: "primitives \<Rightarrow> nat \<Rightarrow> Mat64F \<Rightarrow> Mat64F \<Rightarrow> error + real option" where
  "score_images P nChan a b =
     (if channels a \<noteq> channels b then Inl CvException
      else (let st = snd (scale_loop P nChan 0
                        \<lparr>img1 = a, img2 = b, score = 0, score_max = 0\<rparr>)
            in Inr (final_score (score st) (score_max st))))"

section \<open>Reading, validating and normalising the inputs\<close>

text \<open>\<open>cvtColor(m, m, COLOR_RGB2RGBA)\<close>: every pixel gets a fourth, fully opaque sample.\<close>

definition cvtColor_RGB2RGBA :: "Mat8U \<Rightarrow> Mat8U" where
  "cvtColor_RGB2RGBA m = m\<lparr>channels := 4, data := map_option (map (\<lambda>p. p @ [255])) (data m)\<rparr>"

text \<open>\<open>(p[3] * p[c] + (255 - p[3]) * 128) / 255\<close>: the samples are promoted to \<open>int\<close>,
  where nothing overflows, and the quotient is stored back into an \<open>uchar\<close>.\<close>

definition blend :: "uchar \<Rightarrow> uchar \<Rightarrow> uchar" where
  "blend a c = word_of_int ((uint a * uint c + (255 - uint a) * 128) div 255)"

text \<open>The three assignments to \<open>p[0]\<close>, \<open>p[1]\<close>, \<open>p[2]\<close> of a \<open>Vec4b& p\<close>, in order.\<close>

definition blend_pixel :: "uchar list \<Rightarrow> uchar list" where
  "blend_pixel p =
     (let p = p[0 := blend (p ! 3) (p ! 0)];
          p = p[1 := blend (p ! 3) (p ! 1)];
          p = p[2 := blend (p ! 3) (p ! 2)]
      in p)"

text \<open>\<open>for (unsigned int i = 0; i < pixels; i++) { Vec4b& p = m.at<Vec4b>(i); ... }\<close>\<close>

definition blend_loop :: "Mat8U \<Rightarrow> nat \<Rightarrow> Mat8U" where
  "blend_loop m pixels =
     m\<lparr>data := map_option (fold (\<lambda>i d. d[i := blend_pixel (d ! i)]) [0..<pixels]) (data m)\<rparr>"

definition sRGB_gamma_LUT :: "nat \<Rightarrow> real" where
  "sRGB_gamma_LUT i =
     (let c = real i / 255.0
      in if c \<le> 0.04045 then c / 12.92 else ((c + 0.055) / 1.055) powr 2.4)"

text \<open>\<open>LUT(src, lut, dst)\<close>: \<open>dst\<close> has the size and channels of \<open>src\<close> and holds the
  table entry of every sample.\<close>

definition LUT :: "Mat8U \<Rightarrow> (nat \<Rightarrow> real) \<Rightarrow> Mat64F" where
  "LUT src lut =
     \<lparr>rows = rows src, cols = cols src, channels = channels src,
      data = (\<lambda>y x c. case data src of None \<Rightarrow> 0
                | Some d \<Rightarrow> lut (unat (d ! (y * cols src + x) ! c)))\<rparr>"

text \<open>\<open>Mat(rows, cols, CV_64FC1)\<close>: a fresh one-channel image (its samples are written
  before they are read).\<close>

definition Mat_64FC1 :: "nat \<Rightarrow> nat \<Rightarrow> Mat64F" where
  "Mat_64FC1 r c = \<lparr>rows = r, cols = c, channels = 1, data = (\<lambda>y x k. 0)\<rparr>"

text \<open>
  Linear RGB to L*a*b*.  Every constant of \<open>rgb2lab\<close> is written with the suffix \<open>f\<close>:
  its value is the \<open>float\<close> nearest to the decimal, a 24-bit integer over a power of two,
  and that value is what enters the \<open>double\<close> arithmetic.  The constants are given here
  as these fractions, each next to the decimal of the source; the exponent
  \<open>1.0f / 3.0f\<close> is a \<open>float\<close> quotient, the \<open>float\<close> nearest to one third, which is
  \<open>11184811 / 2 ^ 25\<close>.  \<open>pow\<close> is the real power.
\<close>

definition rgb2lab :: "real \<times> real \<times> real \<Rightarrow> real \<times> real \<times> real" where
  "rgb2lab p =
     (case p of (p0, p1, p2) \<Rightarrow>
        (let epsilon = 9509543 / 2 ^ 30;   \<comment> \<open>0.00885645167903563081f\<close>
             s = 9256395 / 2 ^ 26;         \<comment> \<open>0.13793103448275862068f\<close>
             k = 2041325 / 2 ^ 18;         \<comment> \<open>7.78703703703703703703f\<close>
             fx = p2 * (3640121 / 2 ^ 23)       \<comment> \<open>0.43393624408206207259f\<close>
                    + p1 * (12623103 / 2 ^ 25)  \<comment> \<open>0.37619779063650710152f\<close>
                    + p0 * (3184891 / 2 ^ 24);  \<comment> \<open>.18983429773803261441f\<close>
             fy = p2 * (14272237 / 2 ^ 26)      \<comment> \<open>0.2126729f\<close>
                    + p1 * (11998263 / 2 ^ 24)  \<comment> \<open>0.7151522f\<close>
                    + p0 * (9687165 / 2 ^ 27);  \<comment> \<open>0.0721750f\<close>
             fz = p2 * (9531505 / 2 ^ 29)       \<comment> \<open>0.01775381083562901744f\<close>
                    + p1 * (14690247 / 2 ^ 27)  \<comment> \<open>0.10945087235996326905f\<close>
                    + p0 * (14640457 / 2 ^ 24); \<comment> \<open>0.87263921028466483011f\<close>
             X = (if fx > epsilon then fx powr (11184811 / 2 ^ 25) - s else k * fx);
             Y = (if fy > epsilon then fy powr (11184811 / 2 ^ 25) - s else k * fy);
             Z = (if fz > epsilon then fz powr (11184811 / 2 ^ 25) - s else k * fz)
         in (Y * (9730785 / 2 ^ 23),       \<comment> \<open>1.16f\<close>
             13147237 / 2 ^ 25             \<comment> \<open>0.39181818181818181818f\<close>
               + 9532509 / 2 ^ 22 * (X - Y),    \<comment> \<open>2.27272727272727272727f\<close>
             4114231 / 2 ^ 23              \<comment> \<open>0.49045454545454545454f\<close>
               + 15252015 / 2 ^ 24       \<comment> \<open>0.90909090909090909090f\<close>
                   * (Y - Z))))"

text \<open>\<open>for (i < pixels) rgb2lab(...)\<close> on the first three channels of every pixel, for
  three-channel and for four-channel images alike.\<close>

definition lab_loop :: "Mat64F \<Rightarrow> nat \<Rightarrow> Mat64F" where
  "lab_loop m pixels =
     fold (\<lambda>i m. case rgb2lab (at_get m i 0, at_get m i 1, at_get m i 2) of
                    (p0, p1, p2) \<Rightarrow> at_put (at_put (at_put m i 0 p0) i 1 p1) i 2 p2)
          [0..<pixels] m"

text \<open>\<open>for (i < pixels) { dst.at<double>(i) = src.at<uchar>(i) / 255.0; }\<close>\<close>

fun gray_loop :: "Mat8U \<Rightarrow> Mat64F \<Rightarrow> nat list \<Rightarrow> error + Mat64F" where
  "gray_loop src dst [] = Inr dst"
| "gray_loop src dst (i # is) =
     (case at_uchar src i of
        Inl e \<Rightarrow> Inl e
      | Inr v \<Rightarrow> gray_loop src (at_put dst i 0 (real (unat v) / 255.0)) is)"

text \<open>
  \<open>main\<close>, from the two decoded images to the printed score or the failure.  The
  decoders and the debug images are outside the model.
\<close>

definition main :: "primitives \<Rightarrow> Mat8U \<Rightarrow> Mat8U \<Rightarrow> error + real option" where
  "main P img1_temp img2_temp =
     (if (cols img1_temp, rows img1_temp) \<noteq> (cols img2_temp, rows img2_temp)
      then Inl DimensionMismatch
      else if cols img1_temp < 8 \<or> rows img1_temp < 8 then Inl ImageTooSmall
      else
       (let img1_temp_channels = channels img1_temp;
            img2_temp_channels = channels img2_temp
        in if img1_temp_channels \<noteq> img2_temp_channels
              \<and> (img1_temp_channels < 3 \<or> img2_temp_channels < 3)
           then Inl ChannelMismatch
           else
            (let img1_temp = (if img1_temp_channels \<noteq> img2_temp_channels \<and> img1_temp_channels = 3
                              then cvtColor_RGB2RGBA img1_temp else img1_temp);
                 img2_temp = (if img1_temp_channels \<noteq> img2_temp_channels \<and> img2_temp_channels = 3
                              then cvtColor_RGB2RGBA img2_temp else img2_temp);
                 nChan = channels img1_temp;
                 pixels = rows img1_temp * cols img1_temp;
                 img1_temp = (if nChan = 4 then blend_loop img1_temp pixels else img1_temp);
                 img2_temp = (if nChan = 4 then blend_loop img2_temp pixels else img2_temp);
                 img1 = (if nChan > 1 then LUT img1_temp sRGB_gamma_LUT
                         else Mat_64FC1 (rows img1_temp) (cols img1_temp));
                 img2 = (if nChan > 1 then LUT img2_temp sRGB_gamma_LUT
                         else Mat_64FC1 (rows img1_temp) (cols img1_temp));
                 img1_temp = release img1_temp;
                 img2_temp = release img2_temp
             in if nChan = 3
                then score_images P nChan (lab_loop img1 pixels) (lab_loop img2 pixels)
                else if nChan = 4
                then score_images P nChan (lab_loop img1 pixels) (lab_loop img2 pixels)
                else if nChan = 1
                then (case gray_loop img1_temp img1 [0..<pixels] of
                        Inl e \<Rightarrow> Inl e
                      | Inr img1 \<Rightarrow>
                         (case gray_loop img2_temp img2 [0..<pixels] of
                            Inl e \<Rightarrow> Inl e
                          | Inr img2 \<Rightarrow> score_images P nChan img1 img2))
                else Inl UnsupportedChannelCount)))"

section \<open>Quantities used to state the properties\<close>

text \<open>The SSIM map and the artifact-edge map that a pass computes from the buffers
  \<open>a\<close> and \<open>b\<close>.\<close>

definition ssim_map :: "primitives \<Rightarrow> Mat64F \<Rightarrow> Mat64F \<Rightarrow> Mat64F" where
  "ssim_map P a b =
     (let mu1 = GaussianBlur P a (11, 11) 1.5;
          mu2 = GaussianBlur P b (11, 11) 1.5
      in divide_Mat (ssim_numerator P a b mu1 mu2) (ssim_denominator P a b mu1 mu2))"

definition edge_map :: "primitives \<Rightarrow> Mat64F \<Rightarrow> Mat64F \<Rightarrow> Mat64F" where
  "edge_map P a b = edgediff a b (GaussianBlur P a (11, 11) 1.5) (GaussianBlur P b (11, 11) 1.5)"

text \<open>The state after the first \<open>k\<close> passes of the loop body.\<close>

fun run_scales :: "primitives \<Rightarrow> nat \<Rightarrow> nat \<Rightarrow> scale_state \<Rightarrow> scale_state" where
  "run_scales P nChan 0 st = st"
| "run_scales P nChan (Suc k) st = scale_step P nChan k (run_scales P nChan k st)"


text \<open>The number of passes that a loop with \<open>n\<close> scales left makes on buffers of
  \<open>r\<close> rows and \<open>c\<close> columns.\<close>

fun scales_run :: "nat \<Rightarrow> nat \<Rightarrow> nat \<Rightarrow> nat" where
  "scales_run 0 r c = 0"
| "scales_run (Suc n) r c =
     (if c < 8 \<or> r < 8 then 0
      else Suc (scales_run n (nat (cvRound (real r * 0.5))) (nat (cvRound (real c * 0.5)))))"

text \<open>The weights that one pass adds to \<open>score_max\<close>: at scale 0 the edge weights and
  the grid weights of both maps (rows and columns), at every scale the weights of the
  average and of the minimum of the SSIM map.\<close>

definition step_weight :: "nat \<Rightarrow> nat \<Rightarrow> real" where
  "step_weight nChan scale =
     (if scale = 0
      then (\<Sum>i\<leftarrow>[0..<nChan]. extra_edges_weight ! i)
         + ((\<Sum>i\<leftarrow>[0..<nChan]. worst_grid_weight ! 1 ! i) + (\<Sum>i\<leftarrow>[0..<nChan]. worst_grid_weight ! 1 ! i))
         + ((\<Sum>i\<leftarrow>[0..<nChan]. worst_grid_weight ! 0 ! i) + (\<Sum>i\<leftarrow>[0..<nChan]. worst_grid_weight ! 0 ! i))
      else 0)
     + (\<Sum>i\<leftarrow>[0..<nChan]. (if i > 0 then chroma_weight else 1.0) * scale_weights ! i ! scale)
     + (\<Sum>i\<leftarrow>[0..<nChan]. min_weight ! i * mscale_weights ! i ! scale)"

definition weight_sum :: "nat \<Rightarrow> nat \<Rightarrow> real" where
  "weight_sum nChan n = (\<Sum>scale\<leftarrow>[0..<n]. step_weight nChan scale)"

text \<open>
  What the properties of identical images need of the two library primitives, in exact
  arithmetic: the blur is a mean with non-negative weights, so the blurred square is at
  least the square of the blur; and the area average of a constant image is that constant.
\<close>

definition averaging :: "primitives \<Rightarrow> bool" where
  "averaging P \<longleftrightarrow>
     (\<forall>m y x c. y < rows m \<longrightarrow> x < cols m \<longrightarrow> c < channels m \<longrightarrow>
        (blur P m (11, 11) 1.5 y x c)\<^sup>2 \<le> blur P (pow_Mat m 2) (11, 11) 1.5 y x c)
   \<and> (\<forall>m r c v. 0 < rows m \<longrightarrow> 0 < cols m \<longrightarrow>
        (\<forall>y<rows m. \<forall>x<cols m. \<forall>k<channels m. data m y x k = v) \<longrightarrow>
        (\<forall>y<r. \<forall>x<c. \<forall>k<channels m. area P m (r, c) y x k = v))"

section \<open>Example inputs\<close>

text \<open>Primitives that satisfy \<open>averaging\<close>: a blur that leaves the image as it is and
  a resize that samples the source.\<close>

definition flat_prims :: primitives where
  "flat_prims = \<lparr>blur = (\<lambda>m ksize sigma. data m),
                  area = (\<lambda>m (r, c) y x k. data m (y * rows m div r) (x * cols m div c) k)\<rparr>"

text \<open>Primitives whose blur is a mean of two samples, the sample and its right neighbour
  (the last column is its own neighbour); the resize samples the source.\<close>

definition pair_prims :: primitives where
  "pair_prims =
     \<lparr>blur = (\<lambda>m ksize sigma y x c.
               (data m y x c + data m y (if x + 1 < cols m then x + 1 else x) c) / 2),
      area = (\<lambda>m (r, c) y x k. data m (y * rows m div r) (x * cols m div c) k)\<rparr>"

definition flat64 :: "nat \<Rightarrow> nat \<Rightarrow> nat \<Rightarrow> real \<Rightarrow> Mat64F" where
  "flat64 r c n v = \<lparr>rows = r, cols = c, channels = n, data = (\<lambda>y x k. v)\<rparr>"

definition flat8 :: "nat \<Rightarrow> nat \<Rightarrow> nat \<Rightarrow> uchar \<Rightarrow> Mat8U" where
  "flat8 r c n v = \<lparr>rows = r, cols = c, channels = n, data = Some (replicate (r * c) (replicate n v))\<rparr>"

text \<open>An image whose samples grow by \<open>v\<close> from one column to the next.\<close>

definition hramp :: "nat \<Rightarrow> nat \<Rightarrow> nat \<Rightarrow> real \<Rightarrow> Mat64F" where
  "hramp r c n v = \<lparr>rows = r, cols = c, channels = n, data = (\<lambda>y x k. v * real x)\<rparr>"

definition ramp :: "nat \<Rightarrow> nat \<Rightarrow> Mat64F" where
  "ramp r c = \<lparr>rows = r, cols = c, channels = 1, data = (\<lambda>y x k. real y / 100)\<rparr>"

definition rgba8 :: Mat8U where
  "rgba8 = \<lparr>rows = 8, cols = 8, channels = 4,
            data = Some ([10, 20, 30, 255] # replicate 63 [10, 20, 30, 128])\<rparr>"

section \<open>Facts about the library operations\<close>

lemmas Mat_op_defs = GaussianBlur_def multiply_def addWeighted_def add_Scalar_def Scalar_minus_def
  add_Mat_def sub_Mat_def abs_Mat_def max_Mat_def pow_Mat_def divide_Mat_def


lemma sC1_nth: "c < 4 \<Longrightarrow> sC1 ! c = C1"
  by (auto simp: sC1_def less_Suc_eq eval_nat_numeral)

lemma ones_nth: "c < 4 \<Longrightarrow> [1, 1, 1, 1::real] ! c = 1"
  by (auto simp: less_Suc_eq eval_nat_numeral)

lemma header_ssim_map:
  "rows (ssim_map P a b) = rows a" "cols (ssim_map P a b) = cols a"
  "channels (ssim_map P a b) = channels a"
  by (simp_all add: ssim_map_def ssim_numerator_def ssim_denominator_def Let_def Mat_op_defs)

lemma header_edgediff:
  "rows (edgediff a b mu1 mu2) = rows b" "cols (edgediff a b mu1 mu2) = cols b"
  "channels (edgediff a b mu1 mu2) = channels b"
  by (simp_all add: edgediff_def Let_def Mat_op_defs)

lemma header_resize:
  "rows (resize P a fx fy) = nat (cvRound (real (rows a) * fy))"
  "cols (resize P a fx fy) = nat (cvRound (real (cols a) * fx))"
  "channels (resize P a fx fy) = channels a"
  by (simp_all add: resize_def Let_def)





lemma header_blend_loop:
  "rows (blend_loop m n) = rows m" "cols (blend_loop m n) = cols m"
  "channels (blend_loop m n) = channels m"
  by (simp_all add: blend_loop_def)

lemma header_cvtColor:
  "rows (cvtColor_RGB2RGBA m) = rows m" "cols (cvtColor_RGB2RGBA m) = cols m"
  "channels (cvtColor_RGB2RGBA m) = 4"
  by (simp_all add: cvtColor_RGB2RGBA_def)

lemma mean_nth: "i < 4 \<Longrightarrow> mean m ! i = mean_roi m 0 0 (cols m) (rows m) i"
  by (simp add: mean_def)

lemma fold_acc:
  fixes f g :: "nat \<Rightarrow> real"
  shows "fold (\<lambda>i (s, m). (s + f i, m + g i)) xs acc
     = (fst acc + sum_list (map f xs), snd acc + sum_list (map g xs))"
  by (induction xs arbitrary: acc) (auto simp: case_prod_beta)







lemma averaging_blur:
  "averaging P \<Longrightarrow> y < rows m \<Longrightarrow> x < cols m \<Longrightarrow> c < channels m \<Longrightarrow>
     (blur P m (11, 11) 1.5 y x c)\<^sup>2 \<le> blur P (pow_Mat m 2) (11, 11) 1.5 y x c"
  unfolding averaging_def by blast


section \<open>The grid artifact detector\<close>

lemma worst_entry_nth:
  "k \<le> n \<Longrightarrow> worst_entry k n xs = (if n - k < length xs then Some (xs ! (n - k)) else None)"
proof (induction xs arbitrary: k)
  case Nil
  then show ?case by simp
next
  case (Cons s ss)
  show ?case
  proof (cases "k = n")
    case True
    then show ?thesis by simp
  next
    case False
    with Cons.prems have "k + 1 \<le> n" "n - k = Suc (n - (k + 1))" by simp_all
    with Cons.IH [of "k + 1"] False Cons.prems show ?thesis by simp
  qed
qed

lemma fold_insort_sort: "fold (\<lambda>y s. insort (f y) s) ys [] = sort (map f ys)"
proof -
  have "fold (\<lambda>y s. insort (f y) s) ys [] = fold insort (map f ys) []"
    by (simp add: fold_map comp_def)
  then show ?thesis by (simp add: sort_conv_fold)
qed

lemma row_scores_sort:
  "row_scores m i = sort (map (\<lambda>y. mean_roi m 0 y (cols m) 1 i) [0..<rows m])"
  by (simp add: row_scores_def fold_insort_sort)

lemma col_scores_sort:
  "col_scores m i = sort (map (\<lambda>x. mean_roi m x 0 1 (rows m) i) [0..<cols m])"
  by (simp add: col_scores_def fold_insort_sort)

lemma grid_channel_fold:
  assumes "\<And>i. i \<in> set xs \<Longrightarrow> worst_entry 0 n (sc i) = Some (v i)"
  shows "fold (\<lambda>i. grid_channel (sc i) n (w i)) xs acc
     = (fst acc + (\<Sum>i\<leftarrow>xs. w i * v i), snd acc + (\<Sum>i\<leftarrow>xs. w i))"
  using assms
proof (induction xs arbitrary: acc)
  case Nil
  then show ?case by simp
next
  case (Cons a xs)
  then show ?case by (simp add: grid_channel_def case_prod_beta algebra_simps)
qed

lemma snd_grid_channel_fold:
  "snd (fold (\<lambda>i. grid_channel (sc i) n (w i)) xs acc) = snd acc + (\<Sum>i\<leftarrow>xs. w i)"
  by (induction xs arbitrary: acc) (simp_all add: grid_channel_def case_prod_beta algebra_simps)

lemma snd_grid_artifacts:
  "snd (grid_artifacts m nChan acc twice)
     = snd acc + ((\<Sum>i\<leftarrow>[0..<nChan]. worst_grid_weight ! twice ! i)
                + (\<Sum>i\<leftarrow>[0..<nChan]. worst_grid_weight ! twice ! i))"
  by (simp add: grid_artifacts_def Let_def snd_grid_channel_fold)

lemma worst_row:
  assumes "0 < rows m"
  shows "worst_entry 0 (rows m div 50) (row_scores m i)
     = Some (sort (map (\<lambda>y. mean_roi m 0 y (cols m) 1 i) [0..<rows m]) ! (rows m div 50))"
proof -
  have "rows m div 50 < rows m" using assms by simp
  then show ?thesis by (simp add: worst_entry_nth row_scores_sort)
qed

lemma worst_col:
  assumes "0 < cols m"
  shows "worst_entry 0 (cols m div 50) (col_scores m i)
     = Some (sort (map (\<lambda>x. mean_roi m x 0 1 (rows m) i) [0..<cols m]) ! (cols m div 50))"
proof -
  have "cols m div 50 < cols m" using assms by simp
  then show ?thesis by (simp add: worst_entry_nth col_scores_sort)
qed

lemma grid_artifacts_eq:
  assumes "0 < rows m" and "0 < cols m"
  shows "grid_artifacts m nChan (s, s_max) twice =
          (s + (\<Sum>i\<leftarrow>[0..<nChan]. worst_grid_weight ! twice ! i
                   * (sort (map (\<lambda>y. mean_roi m 0 y (cols m) 1 i) [0..<rows m]) ! (rows m div 50)))
             + (\<Sum>i\<leftarrow>[0..<nChan]. worst_grid_weight ! twice ! i
                   * (sort (map (\<lambda>x. mean_roi m x 0 1 (rows m) i) [0..<cols m]) ! (cols m div 50))),
           s_max + (\<Sum>i\<leftarrow>[0..<nChan]. worst_grid_weight ! twice ! i)
                 + (\<Sum>i\<leftarrow>[0..<nChan]. worst_grid_weight ! twice ! i))"
    unfolding grid_artifacts_def Let_def
    by (simp add: grid_channel_fold [where v = "\<lambda>i. sort (map (\<lambda>y. mean_roi m 0 y (cols m) 1 i) [0..<rows m]) ! (rows m div 50)"]
         grid_channel_fold [where v = "\<lambda>i. sort (map (\<lambda>x. mean_roi m x 0 1 (rows m) i) [0..<cols m]) ! (cols m div 50)"]
         worst_row [OF assms(1)] worst_col [OF assms(2)])



lemma mean_ramp: "0 < c \<Longrightarrow> mean_roi (ramp r c) 0 y c (Suc 0) 0 = real y / 100"
  by (simp add: mean_roi_def ramp_def sum_list_triv)

lemma sort_ramp: "sort (map (\<lambda>y. real y / 100) [0..<n]) = map (\<lambda>y. real y / 100) [0..<n]"
  by (rule sorted_sort_id) (simp add: sorted_map sorted_wrt_iff_nth_less divide_right_mono)

lemma ramp_rows_sorted:
  "0 < c \<Longrightarrow> sort (map (\<lambda>y. mean_roi (ramp r c) 0 y (cols (ramp r c)) 1 0) [0..<rows (ramp r c)])
      = map (\<lambda>y. real y / 100) [0..<r]"
proof -
  assume c: "0 < c"
  have "map (\<lambda>y. mean_roi (ramp r c) 0 y (cols (ramp r c)) 1 0) [0..<rows (ramp r c)]
      = map (\<lambda>y. real y / 100) [0..<r]"
  proof -
    have "cols (ramp r c) = c" "rows (ramp r c) = r" by (simp_all add: ramp_def)
    then show ?thesis using c by (simp add: mean_ramp)
  qed
  then show ?thesis by (simp only: sort_ramp)
qed

lemma length_scores: "length (row_scores m i) = rows m" "length (col_scores m i) = cols m"
  by (simp_all add: row_scores_sort col_scores_sort)

text \<open>
  C3, as the claim states it, fails.  The loop \<open>if (k++ >= rows / 50)\<close> stops at the
  entry of 0-based index \<open>rows div 50\<close> of the ascending row means.  On a map of 50 rows
  whose row means are 0, 0.01, ..., 0.49 it selects the mean 0.01, while rank
  \<open>\<lceil>50 / 50\<rceil> = 1\<close> counted from one is the mean 0; on a map of 8 rows with means
  0, ..., 0.07 it selects the mean 0, while rank \<open>\<lceil>8 / 50\<rceil> = 1\<close> counted from zero is
  the mean 0.01.
\<close>

theorem ceiling_rank_counterexample:
  "worst_entry 0 (rows (ramp 50 8) div 50) (row_scores (ramp 50 8) 0) = Some (1 / 100)
   \<and> row_scores (ramp 50 8) 0 ! (nat \<lceil>real (rows (ramp 50 8)) / 50\<rceil> - 1) = 0
   \<and> worst_entry 0 (rows (ramp 8 8) div 50) (row_scores (ramp 8 8) 0) = Some 0
   \<and> row_scores (ramp 8 8) 0 ! nat \<lceil>real (rows (ramp 8 8)) / 50\<rceil> = 1 / 100"
proof -
  have r50: "rows (ramp 50 8) = 50" and r8: "rows (ramp 8 8) = 8" by (simp_all add: ramp_def)
  have c50: "nat \<lceil>real (50::nat) / 50\<rceil> - 1 = 0" and c8: "nat \<lceil>real (8::nat) / 50\<rceil> = 1"
    by simp_all
  have s50: "row_scores (ramp 50 8) 0 = map (\<lambda>y. real y / 100) [0..<50]"
    using ramp_rows_sorted [of 8 50] by (simp add: row_scores_sort)
  have s8: "row_scores (ramp 8 8) 0 = map (\<lambda>y. real y / 100) [0..<8]"
    using ramp_rows_sorted [of 8 8] by (simp add: row_scores_sort)
  have "worst_entry 0 (rows (ramp 50 8) div 50) (row_scores (ramp 50 8) 0) = Some (1 / 100)"
    by (simp add: r50 s50 worst_entry_nth)
  moreover have "row_scores (ramp 50 8) 0 ! (nat \<lceil>real (rows (ramp 50 8)) / 50\<rceil> - 1) = 0"
    by (simp add: r50 s50 c50)
  moreover have "worst_entry 0 (rows (ramp 8 8) div 50) (row_scores (ramp 8 8) 0) = Some 0"
    by (simp add: r8 s8 worst_entry_nth)
  moreover have "row_scores (ramp 8 8) 0 ! nat \<lceil>real (rows (ramp 8 8)) / 50\<rceil> = 1 / 100"
    by (simp add: r8 s8 c8)
  ultimately show ?thesis by simp
qed

text \<open>
  C3, amended: in the grid artifact detector, for every input map and each channel, the
  row means are collected in ascending order and the value selected as the worst row is
  the entry of 0-based index \<open>rows div 50\<close> of that order (the truncating quotient: rank
  \<open>\<lfloor>rows / 50\<rfloor> + 1\<close> counted from one; no entry for a map without rows); it is weighted
  by \<open>worst_grid_weight[twice][channel]\<close> and added to the score while the weight is
  added to \<open>score_max\<close>; the columns are treated the same way with index \<open>cols div 50\<close>.
\<close>

theorem grid_artifacts_worst_rank:
  "row_scores m i = sort (map (\<lambda>y. mean_roi m 0 y (cols m) 1 i) [0..<rows m])
   \<and> col_scores m i = sort (map (\<lambda>x. mean_roi m x 0 1 (rows m) i) [0..<cols m])
   \<and> worst_entry 0 (rows m div 50) (row_scores m i)
     = (if 0 < rows m then Some (row_scores m i ! (rows m div 50)) else None)
   \<and> worst_entry 0 (cols m div 50) (col_scores m i)
     = (if 0 < cols m then Some (col_scores m i ! (cols m div 50)) else None)
   \<and> (0 < rows m \<and> 0 < cols m \<longrightarrow>
        grid_artifacts m nChan (s, s_max) twice =
          (s + (\<Sum>i\<leftarrow>[0..<nChan]. worst_grid_weight ! twice ! i * (row_scores m i ! (rows m div 50)))
             + (\<Sum>i\<leftarrow>[0..<nChan]. worst_grid_weight ! twice ! i * (col_scores m i ! (cols m div 50))),
           s_max + (\<Sum>i\<leftarrow>[0..<nChan]. worst_grid_weight ! twice ! i)
                 + (\<Sum>i\<leftarrow>[0..<nChan]. worst_grid_weight ! twice ! i)))"
proof (intro conjI impI)
  show "row_scores m i = sort (map (\<lambda>y. mean_roi m 0 y (cols m) 1 i) [0..<rows m])"
    by (rule row_scores_sort)
  show "col_scores m i = sort (map (\<lambda>x. mean_roi m x 0 1 (rows m) i) [0..<cols m])"
    by (rule col_scores_sort)
  show "worst_entry 0 (rows m div 50) (row_scores m i)
     = (if 0 < rows m then Some (row_scores m i ! (rows m div 50)) else None)"
    by (simp add: worst_entry_nth length_scores)
  show "worst_entry 0 (cols m div 50) (col_scores m i)
     = (if 0 < cols m then Some (col_scores m i ! (cols m div 50)) else None)"
    by (simp add: worst_entry_nth length_scores)
  assume "0 < rows m \<and> 0 < cols m"
  then show "grid_artifacts m nChan (s, s_max) twice =
          (s + (\<Sum>i\<leftarrow>[0..<nChan]. worst_grid_weight ! twice ! i * (row_scores m i ! (rows m div 50)))
             + (\<Sum>i\<leftarrow>[0..<nChan]. worst_grid_weight ! twice ! i * (col_scores m i ! (cols m div 50))),
           s_max + (\<Sum>i\<leftarrow>[0..<nChan]. worst_grid_weight ! twice ! i)
                 + (\<Sum>i\<leftarrow>[0..<nChan]. worst_grid_weight ! twice ! i))"
    by (simp add: grid_artifacts_eq row_scores_sort col_scores_sort)
qed

theorem grid_artifacts_worst_rank_witness:
  "0 < rows (ramp 8 8) \<and> 0 < cols (ramp 8 8)
   \<and> worst_entry 0 (rows (ramp 8 8) div 50) (row_scores (ramp 8 8) 0)
       = Some (row_scores (ramp 8 8) 0 ! (rows (ramp 8 8) div 50))
   \<and> snd (grid_artifacts (ramp 8 8) 1 (0, 0) 0) = 2"
proof -
  have h: "0 < rows (ramp 8 8)" "0 < cols (ramp 8 8)" by (simp_all add: ramp_def)
  note t = grid_artifacts_worst_rank [where m = "ramp 8 8" and i = 0 and nChan = 1 and s = 0
      and s_max = 0 and twice = 0]
  have a: "worst_entry 0 (rows (ramp 8 8) div 50) (row_scores (ramp 8 8) 0)
       = Some (row_scores (ramp 8 8) 0 ! (rows (ramp 8 8) div 50))"
    using t [THEN conjunct2, THEN conjunct2, THEN conjunct1] h(1) by (simp only: if_True)
  have "snd (grid_artifacts (ramp 8 8) 1 (0, 0) 0)
       = 0 + (\<Sum>i\<leftarrow>[0..<1]. worst_grid_weight ! 0 ! i) + (\<Sum>i\<leftarrow>[0..<1]. worst_grid_weight ! 0 ! i)"
    using t [THEN conjunct2, THEN conjunct2, THEN conjunct2, THEN conjunct2] h
    by (simp only: snd_conv simp_thms)
  then have b: "snd (grid_artifacts (ramp 8 8) 1 (0, 0) 0) = 2"
    by (simp add: worst_grid_weight_def)
  from h a b show ?thesis by (simp only: simp_thms)
qed

section \<open>The SSIM map and the edge map\<close>

lemma data_ssim_numerator:
  assumes "c < 4"
  shows "data (ssim_numerator P a b (GaussianBlur P a (11, 11) 1.5) (GaussianBlur P b (11, 11) 1.5)) y x c
    = (2 * blur P a (11, 11) 1.5 y x c * blur P b (11, 11) 1.5 y x c + C1)
      * (2 * blur P (multiply a b 1) (11, 11) 1.5 y x c
         - 2 * blur P a (11, 11) 1.5 y x c * blur P b (11, 11) 1.5 y x c + C2)"
  using assms by (simp add: ssim_numerator_def Let_def Mat_op_defs sC1_nth)

lemma data_ssim_denominator:
  assumes "c < 4"
  shows "data (ssim_denominator P a b (GaussianBlur P a (11, 11) 1.5) (GaussianBlur P b (11, 11) 1.5)) y x c
    = ((blur P a (11, 11) 1.5 y x c)\<^sup>2 + (blur P b (11, 11) 1.5 y x c)\<^sup>2 + C1)
      * (blur P (pow_Mat a 2) (11, 11) 1.5 y x c + blur P (pow_Mat b 2) (11, 11) 1.5 y x c
         - ((blur P a (11, 11) 1.5 y x c)\<^sup>2 + (blur P b (11, 11) 1.5 y x c)\<^sup>2) + C2)"
  using assms by (simp add: ssim_denominator_def Let_def Mat_op_defs sC1_nth)

lemma data_ssim_map:
  assumes "c < 4"
  shows "data (ssim_map P a b) y x c
      = ((2 * blur P a (11, 11) 1.5 y x c * blur P b (11, 11) 1.5 y x c + C1)
          * (2 * blur P (multiply a b 1) (11, 11) 1.5 y x c
             - 2 * blur P a (11, 11) 1.5 y x c * blur P b (11, 11) 1.5 y x c + C2))
        / (((blur P a (11, 11) 1.5 y x c)\<^sup>2 + (blur P b (11, 11) 1.5 y x c)\<^sup>2 + C1)
            * (blur P (pow_Mat a 2) (11, 11) 1.5 y x c + blur P (pow_Mat b 2) (11, 11) 1.5 y x c
               - ((blur P a (11, 11) 1.5 y x c)\<^sup>2 + (blur P b (11, 11) 1.5 y x c)\<^sup>2) + C2))"
proof -
  have "data (ssim_map P a b) y x c
      = data (ssim_numerator P a b (GaussianBlur P a (11, 11) 1.5) (GaussianBlur P b (11, 11) 1.5)) y x c
        / data (ssim_denominator P a b (GaussianBlur P a (11, 11) 1.5) (GaussianBlur P b (11, 11) 1.5)) y x c"
    by (simp add: ssim_map_def Let_def divide_Mat_def)
  then show ?thesis
    using assms by (simp only: data_ssim_numerator data_ssim_denominator)
qed

lemma data_edgediff:
  assumes "c < 4"
  shows "data (edgediff a b mu1 mu2) y x c
     = 1 - max (\<bar>data b y x c - data mu2 y x c\<bar> - \<bar>data a y x c - data mu1 y x c\<bar>) 0"
  using assms by (simp add: edgediff_def Let_def Mat_op_defs ones_nth)

lemma edge_penalty_eq:
  assumes "nChan \<le> 4"
  shows "edge_penalty nChan a b mu1 mu2 (s, s_max)
     = grid_artifacts (edgediff a b mu1 mu2) nChan
         (s + (\<Sum>i\<leftarrow>[0..<nChan]. extra_edges_weight ! i
                  * mean_roi (edgediff a b mu1 mu2) 0 0 (cols b) (rows b) i),
          s_max + (\<Sum>i\<leftarrow>[0..<nChan]. extra_edges_weight ! i)) 1"
proof -
  have "(\<Sum>i\<leftarrow>[0..<nChan]. extra_edges_weight ! i * mean (edgediff a b mu1 mu2) ! i)
      = (\<Sum>i\<leftarrow>[0..<nChan]. extra_edges_weight ! i
            * mean_roi (edgediff a b mu1 mu2) 0 0 (cols b) (rows b) i)"
    using assms by (intro arg_cong [where f = sum_list] map_cong) (simp_all add: mean_nth header_edgediff)
  then show ?thesis
    by (simp add: edge_penalty_def Let_def fold_acc)
qed

lemma snd_edge_penalty:
  "snd (edge_penalty nChan a b mu1 mu2 acc)
     = snd acc + (\<Sum>i\<leftarrow>[0..<nChan]. extra_edges_weight ! i)
       + ((\<Sum>i\<leftarrow>[0..<nChan]. worst_grid_weight ! 1 ! i)
          + (\<Sum>i\<leftarrow>[0..<nChan]. worst_grid_weight ! 1 ! i))"
  by (simp add: edge_penalty_def Let_def snd_grid_artifacts fold_acc)

lemma scale_step_eq:
  "scale_step P nChan scale st =
     (let acc = (score st, score_max st);
          acc = (if scale = 0
                 then edge_penalty nChan (img1 st) (img2 st)
                        (GaussianBlur P (img1 st) (11, 11) 1.5) (GaussianBlur P (img2 st) (11, 11) 1.5) acc
                 else acc);
          m = ssim_map P (img1 st) (img2 st);
          acc = (if scale = 0 then grid_artifacts m nChan acc 0 else acc);
          acc = fold (\<lambda>i (score, score_max).
                  (score + (if i > 0 then chroma_weight else 1.0) * mean m ! i * scale_weights ! i ! scale,
                   score_max + (if i > 0 then chroma_weight else 1.0) * scale_weights ! i ! scale))
                  [0..<nChan] acc;
          acc = fold (\<lambda>i (score, score_max).
                  (score + min_weight ! i * minVal (resize P m 0.25 0.25) i * mscale_weights ! i ! scale,
                   score_max + min_weight ! i * mscale_weights ! i ! scale))
                  [0..<nChan] acc
      in \<lparr>img1 = resize P (img1 st) 0.5 0.5, img2 = resize P (img2 st) 0.5 0.5,
          score = fst acc, score_max = snd acc\<rparr>)"
  by (simp add: scale_step_def ssim_map_def Let_def)

lemma score_scale_step:
  "score (scale_step P nChan scale st)
     = fst (if scale = 0
            then grid_artifacts (ssim_map P (img1 st) (img2 st)) nChan
                   (edge_penalty nChan (img1 st) (img2 st) (GaussianBlur P (img1 st) (11, 11) 1.5) (GaussianBlur P (img2 st) (11, 11) 1.5) (score st, score_max st)) 0
            else (score st, score_max st))
       + (\<Sum>i\<leftarrow>[0..<nChan]. (if i > 0 then chroma_weight else 1.0)
             * mean (ssim_map P (img1 st) (img2 st)) ! i * scale_weights ! i ! scale)
       + (\<Sum>i\<leftarrow>[0..<nChan]. min_weight ! i
             * minVal (resize P (ssim_map P (img1 st) (img2 st)) 0.25 0.25) i
             * mscale_weights ! i ! scale)"
  by (simp add: scale_step_eq Let_def fold_acc)

lemma score_max_scale_step:
  "score_max (scale_step P nChan scale st) = score_max st + step_weight nChan scale"
  by (simp add: scale_step_eq Let_def step_weight_def fold_acc snd_grid_artifacts snd_edge_penalty)

lemma header_scale_step:
  "rows (img1 (scale_step P nChan scale st)) = nat (cvRound (real (rows (img1 st)) * 0.5))"
  "cols (img1 (scale_step P nChan scale st)) = nat (cvRound (real (cols (img1 st)) * 0.5))"
  "channels (img1 (scale_step P nChan scale st)) = channels (img1 st)"
  "rows (img2 (scale_step P nChan scale st)) = nat (cvRound (real (rows (img2 st)) * 0.5))"
  "cols (img2 (scale_step P nChan scale st)) = nat (cvRound (real (cols (img2 st)) * 0.5))"
  "channels (img2 (scale_step P nChan scale st)) = channels (img2 st)"
  by (simp_all add: scale_step_eq Let_def header_resize)


lemma header_edge_map:
  "rows (edge_map P a b) = rows b" "cols (edge_map P a b) = cols b"
  "channels (edge_map P a b) = channels b"
  by (simp_all add: edge_map_def header_edgediff)

lemma upt_0_8: "[0..<8] = [0, 1, 2, 3, 4, 5, 6, 7]"
  by (simp add: upt_conv_Cons eval_nat_numeral)

lemma data_edge_map:
  assumes "c < 4"
  shows "data (edge_map P a b) y x c
     = 1 - max (\<bar>data b y x c - blur P b (11, 11) 1.5 y x c\<bar>
                - \<bar>data a y x c - blur P a (11, 11) 1.5 y x c\<bar>) 0"
  using assms by (simp add: edge_map_def data_edgediff GaussianBlur_def)

lemma mean_edge_map:
  assumes "c < 4"
  shows "mean (edge_map P a b) ! c
     = (if c < channels b \<and> 0 < cols b * rows b
        then (\<Sum>y\<leftarrow>[0..<rows b]. \<Sum>x\<leftarrow>[0..<cols b].
                1 - max (\<bar>data b y x c - blur P b (11, 11) 1.5 y x c\<bar>
                         - \<bar>data a y x c - blur P a (11, 11) 1.5 y x c\<bar>) 0)
             / real (cols b * rows b)
        else 0)"
  using assms by (simp add: mean_nth mean_roi_def header_edge_map data_edge_map)

text \<open>
  C4: at every scale, the SSIM map of a pass has the size and the channels of the buffers,
  and each of its samples is the quotient of the numerator
  \<open>(2 mu1 mu2 + C1) (2 blur(img1 img2) - 2 mu1 mu2 + C2)\<close> by the denominator
  \<open>(mu1\<^sup>2 + mu2\<^sup>2 + C1) (blur(img1\<^sup>2) + blur(img2\<^sup>2) - (mu1\<^sup>2 + mu2\<^sup>2) + C2)\<close>, with
  \<open>C1 = 0.0001\<close>, \<open>C2 = 0.0004\<close>, \<open>mu1\<close>, \<open>mu2\<close> the 11 x 11, sigma 1.5 blurs of the
  two buffers and \<open>img1 img2\<close>, \<open>img1\<^sup>2\<close> the products sample by sample.  This is the
  map of every pass: at scale 0 it goes to the grid artifact detector, and at scale 0
  as at every later scale its channel means and, after the quarter resize, its channel
  minima are what the pass adds to the score.
\<close>

theorem ssim_map_quotient:
  assumes "c < 4"
  shows "C1 = 0.0001 \<and> C2 = 0.0004
    \<and> rows (ssim_map P a b) = rows a \<and> cols (ssim_map P a b) = cols a
    \<and> channels (ssim_map P a b) = channels a
    \<and> data (ssim_map P a b) y x c
      = ((2 * blur P a (11, 11) 1.5 y x c * blur P b (11, 11) 1.5 y x c + C1)
          * (2 * blur P (multiply a b 1) (11, 11) 1.5 y x c
             - 2 * blur P a (11, 11) 1.5 y x c * blur P b (11, 11) 1.5 y x c + C2))
        / (((blur P a (11, 11) 1.5 y x c)\<^sup>2 + (blur P b (11, 11) 1.5 y x c)\<^sup>2 + C1)
            * (blur P (pow_Mat a 2) (11, 11) 1.5 y x c + blur P (pow_Mat b 2) (11, 11) 1.5 y x c
               - ((blur P a (11, 11) 1.5 y x c)\<^sup>2 + (blur P b (11, 11) 1.5 y x c)\<^sup>2) + C2))
    \<and> data (multiply a b 1) y x c = data a y x c * data b y x c
    \<and> data (pow_Mat a 2) y x c = (data a y x c)\<^sup>2
    \<and> score (scale_step P nChan scale st)
        = fst (if scale = 0
               then grid_artifacts (ssim_map P (img1 st) (img2 st)) nChan
                      (edge_penalty nChan (img1 st) (img2 st)
                         (GaussianBlur P (img1 st) (11, 11) 1.5) (GaussianBlur P (img2 st) (11, 11) 1.5)
                         (score st, score_max st)) 0
               else (score st, score_max st))
          + (\<Sum>i\<leftarrow>[0..<nChan]. (if i > 0 then chroma_weight else 1.0)
                * mean (ssim_map P (img1 st) (img2 st)) ! i * scale_weights ! i ! scale)
          + (\<Sum>i\<leftarrow>[0..<nChan]. min_weight ! i
                * minVal (resize P (ssim_map P (img1 st) (img2 st)) 0.25 0.25) i
                * mscale_weights ! i ! scale)"
proof (intro conjI)
  show "C1 = 0.0001" by (simp add: C1_def)
  show "C2 = 0.0004" by (simp add: C2_def)
  show "rows (ssim_map P a b) = rows a" "cols (ssim_map P a b) = cols a"
    "channels (ssim_map P a b) = channels a"
    by (rule header_ssim_map)+
  show "data (ssim_map P a b) y x c
      = ((2 * blur P a (11, 11) 1.5 y x c * blur P b (11, 11) 1.5 y x c + C1)
          * (2 * blur P (multiply a b 1) (11, 11) 1.5 y x c
             - 2 * blur P a (11, 11) 1.5 y x c * blur P b (11, 11) 1.5 y x c + C2))
        / (((blur P a (11, 11) 1.5 y x c)\<^sup>2 + (blur P b (11, 11) 1.5 y x c)\<^sup>2 + C1)
            * (blur P (pow_Mat a 2) (11, 11) 1.5 y x c + blur P (pow_Mat b 2) (11, 11) 1.5 y x c
               - ((blur P a (11, 11) 1.5 y x c)\<^sup>2 + (blur P b (11, 11) 1.5 y x c)\<^sup>2) + C2))"
    using assms by (rule data_ssim_map)
  show "data (multiply a b 1) y x c = data a y x c * data b y x c"
    by (simp add: multiply_def)
  show "data (pow_Mat a 2) y x c = (data a y x c)\<^sup>2"
    by (simp add: pow_Mat_def)
  show "score (scale_step P nChan scale st)
        = fst (if scale = 0
               then grid_artifacts (ssim_map P (img1 st) (img2 st)) nChan
                      (edge_penalty nChan (img1 st) (img2 st)
                         (GaussianBlur P (img1 st) (11, 11) 1.5) (GaussianBlur P (img2 st) (11, 11) 1.5)
                         (score st, score_max st)) 0
               else (score st, score_max st))
          + (\<Sum>i\<leftarrow>[0..<nChan]. (if i > 0 then chroma_weight else 1.0)
                * mean (ssim_map P (img1 st) (img2 st)) ! i * scale_weights ! i ! scale)
          + (\<Sum>i\<leftarrow>[0..<nChan]. min_weight ! i
                * minVal (resize P (ssim_map P (img1 st) (img2 st)) 0.25 0.25) i
                * mscale_weights ! i ! scale)"
    by (rule score_scale_step)
qed

theorem ssim_map_quotient_witness:
  "(2::nat) < 4
   \<and> data (ssim_map pair_prims (hramp 8 8 3 (1 / 8)) (hramp 8 8 3 (1 / 4))) 0 0 2
       = 6451024 / 10016649
   \<and> data (ssim_map pair_prims (hramp 8 8 3 (1 / 8)) (hramp 8 8 3 (1 / 4))) 0 7 2
       = 122504 / 153129
   \<and> rows (ssim_map pair_prims (hramp 8 8 3 (1 / 8)) (hramp 8 8 3 (1 / 4))) = 8
   \<and> cols (ssim_map pair_prims (hramp 8 8 3 (1 / 8)) (hramp 8 8 3 (1 / 4))) = 8
   \<and> channels (ssim_map pair_prims (hramp 8 8 3 (1 / 8)) (hramp 8 8 3 (1 / 4))) = 3"
  using ssim_map_quotient [where c = 2 and P = pair_prims and a = "hramp 8 8 3 (1 / 8)"
      and b = "hramp 8 8 3 (1 / 4)" and y = 0 and x = 0]
    ssim_map_quotient [where c = 2 and P = pair_prims and a = "hramp 8 8 3 (1 / 8)"
      and b = "hramp 8 8 3 (1 / 4)" and y = 0 and x = 7]
  by (simp add: pair_prims_def hramp_def multiply_def pow_Mat_def C1_def C2_def power2_eq_square)

text \<open>
  C5: at scale 0 only, the edge artifact penalty computes
  \<open>edgediff = max(|img2 - mu2| - |img1 - mu1|, 0)\<close> in every channel and remaps it to
  \<open>1 - edgediff\<close>, a map of the size and the channels of the buffers, below 1 exactly
  where the second image is farther from its blur than the first is from its own; it
  takes the mean of each channel over the whole image (the sum of the samples of the
  channel divided by the number of pixels), adds each mean with its weight
  \<open>extra_edges_weight = {1.5, 0.1, 0.1, 0.5}\<close> to the score and the weight to
  \<open>score_max\<close>, and hands the \<open>1 - edgediff\<close> map as it is to the grid artifact
  detector with the weight row 1; a pass at a later scale adds the SSIM terms only.
\<close>

theorem edge_penalty_scale0:
  assumes "nChan \<le> 4" and "c < 4"
  shows "rows (edge_map P a b) = rows b \<and> cols (edge_map P a b) = cols b
       \<and> channels (edge_map P a b) = channels b
       \<and> data (edge_map P a b) y x c
           = 1 - max (\<bar>data b y x c - blur P b (11, 11) 1.5 y x c\<bar>
                      - \<bar>data a y x c - blur P a (11, 11) 1.5 y x c\<bar>) 0
       \<and> (data (edge_map P a b) y x c < 1)
           = (\<bar>data a y x c - blur P a (11, 11) 1.5 y x c\<bar>
                < \<bar>data b y x c - blur P b (11, 11) 1.5 y x c\<bar>)
       \<and> mean (edge_map P a b) ! c
           = (if c < channels b \<and> 0 < cols b * rows b
              then (\<Sum>y\<leftarrow>[0..<rows b]. \<Sum>x\<leftarrow>[0..<cols b].
                      1 - max (\<bar>data b y x c - blur P b (11, 11) 1.5 y x c\<bar>
                               - \<bar>data a y x c - blur P a (11, 11) 1.5 y x c\<bar>) 0)
                   / real (cols b * rows b)
              else 0)
       \<and> extra_edges_weight = [1.5, 0.1, 0.1, 0.5]
       \<and> edge_penalty nChan a b (GaussianBlur P a (11, 11) 1.5) (GaussianBlur P b (11, 11) 1.5) (s, s_max)
           = grid_artifacts (edge_map P a b) nChan
               (s + (\<Sum>i\<leftarrow>[0..<nChan]. extra_edges_weight ! i * mean (edge_map P a b) ! i),
                s_max + (\<Sum>i\<leftarrow>[0..<nChan]. extra_edges_weight ! i)) 1
       \<and> score (scale_step P nChan 0 st)
           = fst (grid_artifacts (ssim_map P (img1 st) (img2 st)) nChan
                    (edge_penalty nChan (img1 st) (img2 st)
                       (GaussianBlur P (img1 st) (11, 11) 1.5) (GaussianBlur P (img2 st) (11, 11) 1.5)
                       (score st, score_max st)) 0)
             + (\<Sum>i\<leftarrow>[0..<nChan]. (if i > 0 then chroma_weight else 1.0)
                   * mean (ssim_map P (img1 st) (img2 st)) ! i * scale_weights ! i ! 0)
             + (\<Sum>i\<leftarrow>[0..<nChan]. min_weight ! i
                   * minVal (resize P (ssim_map P (img1 st) (img2 st)) 0.25 0.25) i
                   * mscale_weights ! i ! 0)
       \<and> (0 < scale \<longrightarrow>
            score (scale_step P nChan scale st)
              = score st
                + (\<Sum>i\<leftarrow>[0..<nChan]. (if i > 0 then chroma_weight else 1.0)
                      * mean (ssim_map P (img1 st) (img2 st)) ! i * scale_weights ! i ! scale)
                + (\<Sum>i\<leftarrow>[0..<nChan]. min_weight ! i
                      * minVal (resize P (ssim_map P (img1 st) (img2 st)) 0.25 0.25) i
                      * mscale_weights ! i ! scale))"
proof (intro conjI impI)
  show "rows (edge_map P a b) = rows b" "cols (edge_map P a b) = cols b"
    "channels (edge_map P a b) = channels b"
    by (rule header_edge_map)+
  show "data (edge_map P a b) y x c
           = 1 - max (\<bar>data b y x c - blur P b (11, 11) 1.5 y x c\<bar>
                      - \<bar>data a y x c - blur P a (11, 11) 1.5 y x c\<bar>) 0"
    using assms(2) by (rule data_edge_map)
  show "(data (edge_map P a b) y x c < 1)
           = (\<bar>data a y x c - blur P a (11, 11) 1.5 y x c\<bar>
                < \<bar>data b y x c - blur P b (11, 11) 1.5 y x c\<bar>)"
    using assms(2) by (simp add: data_edge_map max_def)
  show "mean (edge_map P a b) ! c
           = (if c < channels b \<and> 0 < cols b * rows b
              then (\<Sum>y\<leftarrow>[0..<rows b]. \<Sum>x\<leftarrow>[0..<cols b].
                      1 - max (\<bar>data b y x c - blur P b (11, 11) 1.5 y x c\<bar>
                               - \<bar>data a y x c - blur P a (11, 11) 1.5 y x c\<bar>) 0)
                   / real (cols b * rows b)
              else 0)"
    using assms(2) by (rule mean_edge_map)
  show "extra_edges_weight = [1.5, 0.1, 0.1, 0.5]"
    by (simp add: extra_edges_weight_def)
  have "(\<Sum>i\<leftarrow>[0..<nChan]. extra_edges_weight ! i * mean (edge_map P a b) ! i)
      = (\<Sum>i\<leftarrow>[0..<nChan]. extra_edges_weight ! i * mean_roi (edge_map P a b) 0 0 (cols b) (rows b) i)"
    using assms(1) by (intro arg_cong [where f = sum_list] map_cong) (simp_all add: mean_nth header_edge_map)
  then show "edge_penalty nChan a b (GaussianBlur P a (11, 11) 1.5) (GaussianBlur P b (11, 11) 1.5) (s, s_max)
           = grid_artifacts (edge_map P a b) nChan
               (s + (\<Sum>i\<leftarrow>[0..<nChan]. extra_edges_weight ! i * mean (edge_map P a b) ! i),
                s_max + (\<Sum>i\<leftarrow>[0..<nChan]. extra_edges_weight ! i)) 1"
    using assms(1) by (simp only: edge_map_def edge_penalty_eq)
  show "score (scale_step P nChan 0 st)
           = fst (grid_artifacts (ssim_map P (img1 st) (img2 st)) nChan
                    (edge_penalty nChan (img1 st) (img2 st)
                       (GaussianBlur P (img1 st) (11, 11) 1.5) (GaussianBlur P (img2 st) (11, 11) 1.5)
                       (score st, score_max st)) 0)
             + (\<Sum>i\<leftarrow>[0..<nChan]. (if i > 0 then chroma_weight else 1.0)
                   * mean (ssim_map P (img1 st) (img2 st)) ! i * scale_weights ! i ! 0)
             + (\<Sum>i\<leftarrow>[0..<nChan]. min_weight ! i
                   * minVal (resize P (ssim_map P (img1 st) (img2 st)) 0.25 0.25) i
                   * mscale_weights ! i ! 0)"
    by (simp add: score_scale_step)
  show "score (scale_step P nChan scale st)
              = score st
                + (\<Sum>i\<leftarrow>[0..<nChan]. (if i > 0 then chroma_weight else 1.0)
                      * mean (ssim_map P (img1 st) (img2 st)) ! i * scale_weights ! i ! scale)
                + (\<Sum>i\<leftarrow>[0..<nChan]. min_weight ! i
                      * minVal (resize P (ssim_map P (img1 st) (img2 st)) 0.25 0.25) i
                      * mscale_weights ! i ! scale)"
    if "0 < scale"
    using that by (simp only: score_scale_step) simp
qed

theorem edge_penalty_scale0_witness:
  "(3::nat) \<le> 4 \<and> (0::nat) < 4
   \<and> data (edge_map pair_prims (flat64 8 8 3 (1 / 2)) (hramp 8 8 3 (1 / 8))) 0 0 0 = 15 / 16
   \<and> mean (edge_map pair_prims (flat64 8 8 3 (1 / 2)) (hramp 8 8 3 (1 / 8))) ! 0 = 121 / 128
   \<and> data (edge_map pair_prims (hramp 8 8 3 (1 / 8)) (flat64 8 8 3 (1 / 2))) 0 0 0 = 1
   \<and> mean (edge_map pair_prims (hramp 8 8 3 (1 / 8)) (flat64 8 8 3 (1 / 2))) ! 0 = 1
   \<and> extra_edges_weight = [1.5, 0.1, 0.1, 0.5]"
  using edge_penalty_scale0 [where nChan = 3 and c = 0 and P = pair_prims
      and a = "flat64 8 8 3 (1 / 2)" and b = "hramp 8 8 3 (1 / 8)" and y = 0 and x = 0]
    edge_penalty_scale0 [where nChan = 3 and c = 0 and P = pair_prims
      and b = "flat64 8 8 3 (1 / 2)" and a = "hramp 8 8 3 (1 / 8)" and y = 0 and x = 0]
  by (simp add: pair_prims_def flat64_def hramp_def upt_0_8)

section \<open>The scale loop\<close>


lemma scale_loop_run_scales:
  assumes "scale \<le> 6"
  shows "\<exists>n. scale \<le> n \<and> n \<le> 6
    \<and> scale_loop P nChan scale (run_scales P nChan scale st0) = (n, run_scales P nChan n st0)
    \<and> (\<forall>k. scale \<le> k \<and> k < n \<longrightarrow>
          8 \<le> cols (img1 (run_scales P nChan k st0)) \<and> 8 \<le> rows (img1 (run_scales P nChan k st0)))
    \<and> (n < 6 \<longrightarrow> cols (img1 (run_scales P nChan n st0)) < 8 \<or> rows (img1 (run_scales P nChan n st0)) < 8)"
  using assms
proof (induction "6 - scale" arbitrary: scale)
  case 0
  then have "scale = 6" by simp
  then show ?case by (auto simp: scale_loop.simps intro!: exI [of _ 6])
next
  case (Suc d)
  then have lt: "scale < 6" by simp
  let ?st = "run_scales P nChan scale st0"
  show ?case
  proof (cases "cols (img1 ?st) < 8 \<or> rows (img1 ?st) < 8")
    case True
    with lt have "scale_loop P nChan scale ?st = (scale, ?st)"
      by (subst scale_loop.simps) simp
    with True lt show ?thesis by (intro exI [of _ scale]) auto
  next
    case False
    from Suc have "d = 6 - (scale + 1)" "scale + 1 \<le> 6" by simp_all
    from Suc.hyps(1) [OF this] obtain n where n: "scale + 1 \<le> n" "n \<le> 6"
      "scale_loop P nChan (scale + 1) (run_scales P nChan (scale + 1) st0) = (n, run_scales P nChan n st0)"
      "\<forall>k. scale + 1 \<le> k \<and> k < n \<longrightarrow>
          8 \<le> cols (img1 (run_scales P nChan k st0)) \<and> 8 \<le> rows (img1 (run_scales P nChan k st0))"
      "n < 6 \<longrightarrow> cols (img1 (run_scales P nChan n st0)) < 8 \<or> rows (img1 (run_scales P nChan n st0)) < 8"
      by blast
    have "scale_loop P nChan scale ?st = scale_loop P nChan (scale + 1) (scale_step P nChan scale ?st)"
      using lt False by (subst scale_loop.simps) simp
    then have eq: "scale_loop P nChan scale ?st = (n, run_scales P nChan n st0)"
      using n(3) by simp
    have "8 \<le> cols (img1 (run_scales P nChan k st0)) \<and> 8 \<le> rows (img1 (run_scales P nChan k st0))"
      if "scale \<le> k" "k < n" for k
    proof (cases "k = scale")
      case True
      with False show ?thesis by simp
    next
      case False
      with that n(4) show ?thesis by simp
    qed
    with n eq show ?thesis by (intro exI [of _ n]) auto
  qed
qed

lemma fst_scale_loop:
  assumes "scale \<le> 6"
  shows "fst (scale_loop P nChan scale st)
     = scale + scales_run (6 - scale) (rows (img1 st)) (cols (img1 st))"
  using assms
proof (induction "6 - scale" arbitrary: scale st)
  case 0
  then have "scale = 6" by simp
  then show ?case by (simp add: scale_loop.simps)
next
  case (Suc d)
  then have lt: "scale < 6" and d: "6 - scale = Suc d" "d = 6 - (scale + 1)" "scale + 1 \<le> 6"
    by simp_all
  show ?case
  proof (cases "cols (img1 st) < 8 \<or> rows (img1 st) < 8")
    case True
    with lt show ?thesis by (subst scale_loop.simps) (auto simp: d(1))
  next
    case False
    have "fst (scale_loop P nChan scale st)
        = fst (scale_loop P nChan (scale + 1) (scale_step P nChan scale st))"
      using lt False by (subst scale_loop.simps) simp
    also have "\<dots> = scale + 1 + scales_run (6 - (scale + 1))
        (rows (img1 (scale_step P nChan scale st))) (cols (img1 (scale_step P nChan scale st)))"
      using Suc.hyps(1) [OF d(2) d(3)] .
    finally show ?thesis
      using False d by (simp add: header_scale_step)
  qed
qed

lemma scale_loop_eq_run:
  "scale_loop P nChan 0 st
     = (scales_run 6 (rows (img1 st)) (cols (img1 st)),
        run_scales P nChan (scales_run 6 (rows (img1 st)) (cols (img1 st))) st)"
proof -
  from scale_loop_run_scales [of 0 P nChan st] obtain n where
    n: "scale_loop P nChan 0 st = (n, run_scales P nChan n st)" by auto
  moreover have "fst (scale_loop P nChan 0 st) = scales_run 6 (rows (img1 st)) (cols (img1 st))"
    using fst_scale_loop [of 0 P nChan st] by simp
  ultimately show ?thesis by simp
qed




lemma score_max_run_scales:
  "score_max (run_scales P nChan n st) = score_max st + weight_sum nChan n"
  by (induction n) (simp_all add: weight_sum_def score_max_scale_step)





text \<open>
  C10: the weight sum \<open>score_max\<close> at the end of the loop is a function of the channel
  count and of the rows and columns of the buffers alone: it is the sum, over the passes
  made, of the edge, grid, average and minimum weights of \<open>nChan\<close> channels, and the
  number of passes is determined by the rows and columns.  Two pairs of buffers of equal
  size give the same \<open>score_max\<close> for the same \<open>nChan\<close>, whatever their samples.
\<close>

theorem score_max_from_shape:
  "score_max (snd (scale_loop P nChan 0 \<lparr>img1 = a, img2 = b, score = 0, score_max = 0\<rparr>))
     = weight_sum nChan (scales_run 6 (rows a) (cols a))
   \<and> (rows a' = rows a \<and> cols a' = cols a \<longrightarrow>
        score_max (snd (scale_loop P nChan 0 \<lparr>img1 = a', img2 = b', score = 0, score_max = 0\<rparr>))
      = score_max (snd (scale_loop P nChan 0 \<lparr>img1 = a, img2 = b, score = 0, score_max = 0\<rparr>)))"
  by (simp add: scale_loop_eq_run score_max_run_scales)

theorem score_max_from_shape_witness:
  "rows (ramp 8 8) = rows (flat64 8 8 3 (1 / 2)) \<and> cols (ramp 8 8) = cols (flat64 8 8 3 (1 / 2))
   \<and> score_max (snd (scale_loop flat_prims 3 0
         \<lparr>img1 = ramp 8 8, img2 = ramp 8 8, score = 0, score_max = 0\<rparr>))
     = score_max (snd (scale_loop flat_prims 3 0
         \<lparr>img1 = flat64 8 8 3 (1 / 2), img2 = flat64 8 8 3 (1 / 4), score = 0, score_max = 0\<rparr>))"
proof -
  have h: "rows (ramp 8 8) = rows (flat64 8 8 3 (1 / 2))" "cols (ramp 8 8) = cols (flat64 8 8 3 (1 / 2))"
    by (simp_all add: ramp_def flat64_def)
  from score_max_from_shape [where P = flat_prims and nChan = 3 and a = "flat64 8 8 3 (1 / 2)"
      and b = "flat64 8 8 3 (1 / 4)" and a' = "ramp 8 8" and b' = "ramp 8 8"]
  show ?thesis using h by simp
qed

section \<open>Identical images\<close>

lemma ssim_denominator_pos:
  assumes "averaging P" "y < rows a" "x < cols a" "c < channels a" "channels a \<le> 4"
    and "rows b = rows a" "cols b = cols a" "channels b = channels a"
  shows "0 < data (ssim_denominator P a b (GaussianBlur P a (11, 11) 1.5)
                     (GaussianBlur P b (11, 11) 1.5)) y x c"
proof -
  let ?mu1 = "blur P a (11, 11) 1.5 y x c" and ?mu2 = "blur P b (11, 11) 1.5 y x c"
  let ?s1 = "blur P (pow_Mat a 2) (11, 11) 1.5 y x c"
  let ?s2 = "blur P (pow_Mat b 2) (11, 11) 1.5 y x c"
  have c4: "c < 4" using assms by simp
  have j1: "?mu1\<^sup>2 \<le> ?s1" using assms(1-4) by (rule averaging_blur)
  have j2: "?mu2\<^sup>2 \<le> ?s2" using assms by (intro averaging_blur) simp_all
  have f1: "0 < ?mu1\<^sup>2 + ?mu2\<^sup>2 + C1"
    using zero_le_power2 [of ?mu1] zero_le_power2 [of ?mu2] by (simp add: C1_def add_nonneg_pos)
  have f2: "0 < ?s1 + ?s2 - (?mu1\<^sup>2 + ?mu2\<^sup>2) + C2"
    using j1 j2 by (simp add: C2_def)
  from f1 f2 have "0 < (?mu1\<^sup>2 + ?mu2\<^sup>2 + C1) * (?s1 + ?s2 - (?mu1\<^sup>2 + ?mu2\<^sup>2) + C2)"
    by (rule mult_pos_pos)
  then show ?thesis by (simp only: data_ssim_denominator [OF c4])
qed









section \<open>main\<close>

lemma gray_loop_released:
  "xs \<noteq> [] \<Longrightarrow> gray_loop (release src) dst xs = Inl NullDataRead"
  by (cases xs) (simp_all add: at_uchar_def release_def)

lemma main_grayscale:
  assumes "rows a = rows b" "cols a = cols b" "8 \<le> rows a" "8 \<le> cols a"
    and "channels a = 1" "channels b = 1"
  shows "main P a b = Inl NullDataRead"
proof -
  have "0 < rows a * cols a" using assms(3,4) by simp
  then have "[0..<rows a * cols a] \<noteq> []" by simp
  then have "gray_loop (release a) dst [0..<rows a * cols a] = Inl NullDataRead" for dst
    by (rule gray_loop_released)
  then show ?thesis
    using assms by (simp add: main_def Let_def)
qed






text \<open>
  C6: the inputs are checked in this order, and the first check that fails ends the run
  with its error and without a score: images of different width or height are a dimension
  mismatch; a width or height below 8 is an image too small; channel counts that differ
  with one of them below 3 are a channel mismatch; a channel count, after the promotion of
  a three-channel image against a four-channel one, that is not 1, 3 or 4 is an unsupported
  channel count.
\<close>

theorem input_validation:
  "((cols a, rows a) \<noteq> (cols b, rows b) \<longrightarrow> main P a b = Inl DimensionMismatch)
   \<and> ((cols a, rows a) = (cols b, rows b) \<and> (cols a < 8 \<or> rows a < 8)
        \<longrightarrow> main P a b = Inl ImageTooSmall)
   \<and> ((cols a, rows a) = (cols b, rows b) \<and> 8 \<le> cols a \<and> 8 \<le> rows a
        \<and> channels a \<noteq> channels b \<and> (channels a < 3 \<or> channels b < 3)
        \<longrightarrow> main P a b = Inl ChannelMismatch)
   \<and> ((cols a, rows a) = (cols b, rows b) \<and> 8 \<le> cols a \<and> 8 \<le> rows a
        \<and> \<not> (channels a \<noteq> channels b \<and> (channels a < 3 \<or> channels b < 3))
        \<and> (if channels a \<noteq> channels b \<and> channels a = 3 then 4 else channels a) \<notin> {1, 3, 4}
        \<longrightarrow> main P a b = Inl UnsupportedChannelCount)"
  by (auto simp: main_def Let_def header_cvtColor header_blend_loop)

theorem input_validation_witness:
  "main flat_prims (flat8 4 4 1 128) (flat8 5 5 1 128) = Inl DimensionMismatch
   \<and> main flat_prims (flat8 4 4 1 128) (flat8 4 4 1 128) = Inl ImageTooSmall
   \<and> main flat_prims (flat8 8 8 1 128) (flat8 8 8 3 128) = Inl ChannelMismatch
   \<and> main flat_prims (flat8 8 8 2 128) (flat8 8 8 2 128) = Inl UnsupportedChannelCount"
  using input_validation [where P = flat_prims and a = "flat8 4 4 1 128" and b = "flat8 5 5 1 128"]
    input_validation [where P = flat_prims and a = "flat8 4 4 1 128" and b = "flat8 4 4 1 128"]
    input_validation [where P = flat_prims and a = "flat8 8 8 1 128" and b = "flat8 8 8 3 128"]
    input_validation [where P = flat_prims and a = "flat8 8 8 2 128" and b = "flat8 8 8 2 128"]
  by (simp add: flat8_def)



section \<open>One-channel inputs\<close>

text \<open>
  C7: for a one-channel input the buffer handed to the loop is to hold, at every pixel,
  the 8-bit sample divided by 255.  main does not get there: \<open>img1_temp.release()\<close> and
  \<open>img2_temp.release()\<close> come before the branch \<open>nChan == 1\<close>, whose first assignment
  \<open>img1.at<double>(0) = img1_temp.at<uchar>(0) / 255.0\<close> then reads through the null data
  pointer of the released image.  No buffer is produced and no score is printed, for these
  two 8 x 8 one-channel images as for every valid one-channel pair.
\<close>

theorem grayscale_reads_released_image:
  "gray_loop (release (flat8 8 8 1 128)) (Mat_64FC1 8 8) [0..<64] = Inl NullDataRead
   \<and> main P (flat8 8 8 1 128) (flat8 8 8 1 64) = Inl NullDataRead"
proof
  show "gray_loop (release (flat8 8 8 1 128)) (Mat_64FC1 8 8) [0..<64] = Inl NullDataRead"
    by (rule gray_loop_released) simp
  show "main P (flat8 8 8 1 128) (flat8 8 8 1 64) = Inl NullDataRead"
    by (rule main_grayscale) (simp_all add: flat8_def)
qed

text \<open>
  C1: two identical images are to give the score 0.  For two identical 16 x 16
  one-channel images main ends in the read through the released image and prints no
  score.  (For identical three- and four-channel images, and for identical buffers of any
  channel count handed to the loop, the score is 0: \<open>main_identical_colour\<close>,
  \<open>score_images_identical\<close>.)
\<close>

theorem identical_gray_pair_no_score:
  "main P (flat8 16 16 1 128) (flat8 16 16 1 128) = Inl NullDataRead
   \<and> main P (flat8 16 16 1 128) (flat8 16 16 1 128) \<noteq> Inr (Some 0)"
proof -
  have "main P (flat8 16 16 1 128) (flat8 16 16 1 128) = Inl NullDataRead"
    by (rule main_grayscale) (simp_all add: flat8_def)
  then show ?thesis by simp
qed

section \<open>Blending four-channel images against gray\<close>

lemma uint_blend: "uint (blend a c) = (uint a * uint c + (255 - uint a) * 128) div 255"
proof -
  have a: "0 \<le> uint a" "uint a \<le> 255" and c: "0 \<le> uint c" "uint c \<le> 255"
    using uint_lt2p [of a] uint_lt2p [of c] by simp_all
  have "uint a * uint c \<le> uint a * 255"
    using a c by (intro mult_left_mono) simp_all
  then have up: "uint a * uint c + (255 - uint a) * 128 \<le> 255 * 255"
    using a by simp
  have lo: "0 \<le> uint a * uint c + (255 - uint a) * 128"
    using a c by simp
  have "(uint a * uint c + (255 - uint a) * 128) div 255 \<le> 255"
    using up by simp
  moreover have "0 \<le> (uint a * uint c + (255 - uint a) * 128) div 255"
    using lo by simp
  ultimately show ?thesis
    unfolding blend_def by (simp add: uint_word_of_int take_bit_int_eq_self)
qed

lemma blend_opaque: "blend 255 c = c"
proof -
  have "uint (blend 255 c) = uint c" by (simp add: uint_blend)
  then show ?thesis by (rule word_uint_eqI)
qed

lemma blend_pixel_nth:
  assumes "length p = 4"
  shows "blend_pixel p = [blend (p ! 3) (p ! 0), blend (p ! 3) (p ! 1), blend (p ! 3) (p ! 2), p ! 3]"
proof -
  obtain a b c d where p: "p = [a, b, c, d]"
    using assms by (auto simp: length_Suc_conv eval_nat_numeral)
  show ?thesis by (simp add: p blend_pixel_def)
qed

lemma fold_update_map:
  "n \<le> length d \<Longrightarrow> fold (\<lambda>i d. d[i := f (d ! i)]) [0..<n] d = map f (take n d) @ drop n d"
proof (induction n)
  case 0
  then show ?case by simp
next
  case (Suc n)
  then have n: "n < length d" by simp
  have "fold (\<lambda>i d. d[i := f (d ! i)]) [0..<Suc n] d
      = (map f (take n d) @ drop n d)[n := f ((map f (take n d) @ drop n d) ! n)]"
    using Suc by simp
  also have "\<dots> = map f (take n d) @ (drop n d)[0 := f (d ! n)]"
    using n by (simp add: list_update_append nth_append)
  also have "\<dots> = map f (take (Suc n) d) @ drop (Suc n) d"
    using n by (simp add: take_Suc_conv_app_nth Cons_nth_drop_Suc [symmetric])
  finally show ?case .
qed

lemma data_blend_loop:
  assumes "data m = Some d" "length d = n"
  shows "data (blend_loop m n) = Some (map blend_pixel d)"
  using assms fold_update_map [of n d blend_pixel] by (simp add: blend_loop_def)

lemma wf_Mat8U_D:
  assumes "wf_Mat8U m"
  obtains d where "data m = Some d" "length d = rows m * cols m"
    "\<And>i. i < rows m * cols m \<Longrightarrow> length (d ! i) = channels m"
proof -
  from assms obtain d where d: "data m = Some d" "length d = rows m * cols m"
    "list_all (\<lambda>p. length p = channels m) d"
    by (auto simp: wf_Mat8U_def split: option.splits)
  from d(2,3) have "length (d ! i) = channels m" if "i < rows m * cols m" for i
    using that by (simp add: list_all_length)
  with d(1,2) show ?thesis by (rule that)
qed

lemma wf_rgba8: "wf_Mat8U rgba8"
  by (simp add: wf_Mat8U_def rgba8_def list_all_iff)

text \<open>
  C8: when \<open>nChan = 4\<close>, before the gamma table is applied, each of the three colour
  samples \<open>c\<close> of every pixel of both images is replaced by
  \<open>(alpha * c + (255 - alpha) * 128) / 255\<close>, computed in integers with a truncating
  division from the pixel's own alpha, each channel on its own; the alpha sample stays as
  it is, and a pixel with alpha 255 is unchanged.  With \<open>nChan = 3\<close> nothing is blended.
\<close>

theorem blend_gray_background:
  assumes "wf_Mat8U m" and "channels m = 4" and "data m = Some d" and "i < rows m * cols m"
  shows "(\<exists>d'. data (blend_loop m (rows m * cols m)) = Some d'
            \<and> length d' = length d
            \<and> (\<forall>c<3. uint (d' ! i ! c)
                  = (uint (d ! i ! 3) * uint (d ! i ! c) + (255 - uint (d ! i ! 3)) * 128) div 255)
            \<and> d' ! i ! 3 = d ! i ! 3
            \<and> (d ! i ! 3 = 255 \<longrightarrow> d' ! i = d ! i))
       \<and> (rows a = rows b \<and> cols a = cols b \<and> 8 \<le> rows a \<and> 8 \<le> cols a
            \<and> (channels a = 3 \<or> channels a = 4) \<and> (channels b = 3 \<or> channels b = 4)
            \<and> (channels a = 4 \<or> channels b = 4) \<longrightarrow>
           main P a b = score_images P 4
             (lab_loop (LUT (blend_loop (if channels a = 3 then cvtColor_RGB2RGBA a else a)
                               (rows a * cols a)) sRGB_gamma_LUT) (rows a * cols a))
             (lab_loop (LUT (blend_loop (if channels b = 3 then cvtColor_RGB2RGBA b else b)
                               (rows a * cols a)) sRGB_gamma_LUT) (rows a * cols a)))
       \<and> (rows a = rows b \<and> cols a = cols b \<and> 8 \<le> rows a \<and> 8 \<le> cols a
            \<and> channels a = 3 \<and> channels b = 3 \<longrightarrow>
           main P a b = score_images P 3
             (lab_loop (LUT a sRGB_gamma_LUT) (rows a * cols a))
             (lab_loop (LUT b sRGB_gamma_LUT) (rows a * cols a)))"
proof (intro conjI impI)
  from assms(1) obtain d0 where d0: "data m = Some d0" "length d0 = rows m * cols m"
    "\<And>i. i < rows m * cols m \<Longrightarrow> length (d0 ! i) = channels m"
    by (rule wf_Mat8U_D) blast
  with assms have d: "length d = rows m * cols m" "length (d ! i) = 4"
    by auto
  have bl: "data (blend_loop m (rows m * cols m)) = Some (map blend_pixel d)"
    using assms(3) d(1) by (simp add: data_blend_loop)
  have px: "map blend_pixel d ! i
      = [blend (d ! i ! 3) (d ! i ! 0), blend (d ! i ! 3) (d ! i ! 1), blend (d ! i ! 3) (d ! i ! 2), d ! i ! 3]"
    using assms(4) d by (simp add: blend_pixel_nth)
  have c3: "uint ((map blend_pixel d) ! i ! c)
      = (uint (d ! i ! 3) * uint (d ! i ! c) + (255 - uint (d ! i ! 3)) * 128) div 255"
    if "c < 3" for c
  proof -
    from that have "c = 0 \<or> c = 1 \<or> c = 2" by auto
    then show ?thesis by (auto simp: px uint_blend)
  qed
  have op: "map blend_pixel d ! i = d ! i" if "d ! i ! 3 = 255"
  proof -
    obtain p0 p1 p2 p3 where p: "d ! i = [p0, p1, p2, p3]"
      using d(2) by (auto simp: length_Suc_conv eval_nat_numeral)
    show ?thesis using that by (simp add: px p blend_opaque)
  qed
  show "\<exists>d'. data (blend_loop m (rows m * cols m)) = Some d'
               \<and> length d' = length d
               \<and> (\<forall>c<3. uint (d' ! i ! c)
                     = (uint (d ! i ! 3) * uint (d ! i ! c) + (255 - uint (d ! i ! 3)) * 128) div 255)
               \<and> d' ! i ! 3 = d ! i ! 3
               \<and> (d ! i ! 3 = 255 \<longrightarrow> d' ! i = d ! i)"
    using bl c3 op px by (intro exI [of _ "map blend_pixel d"]) simp
next
  assume "rows a = rows b \<and> cols a = cols b \<and> 8 \<le> rows a \<and> 8 \<le> cols a
            \<and> (channels a = 3 \<or> channels a = 4) \<and> (channels b = 3 \<or> channels b = 4)
            \<and> (channels a = 4 \<or> channels b = 4)"
  then show "main P a b = score_images P 4
             (lab_loop (LUT (blend_loop (if channels a = 3 then cvtColor_RGB2RGBA a else a)
                               (rows a * cols a)) sRGB_gamma_LUT) (rows a * cols a))
             (lab_loop (LUT (blend_loop (if channels b = 3 then cvtColor_RGB2RGBA b else b)
                               (rows a * cols a)) sRGB_gamma_LUT) (rows a * cols a))"
    by (auto simp: main_def Let_def header_blend_loop header_cvtColor)
next
  assume "rows a = rows b \<and> cols a = cols b \<and> 8 \<le> rows a \<and> 8 \<le> cols a
            \<and> channels a = 3 \<and> channels b = 3"
  then show "main P a b = score_images P 3
             (lab_loop (LUT a sRGB_gamma_LUT) (rows a * cols a))
             (lab_loop (LUT b sRGB_gamma_LUT) (rows a * cols a))"
    by (simp add: main_def Let_def)
qed

theorem blend_gray_background_witness:
  "wf_Mat8U rgba8 \<and> channels rgba8 = 4
   \<and> (\<exists>d'. data (blend_loop rgba8 64) = Some d'
         \<and> uint (d' ! 1 ! 0) = (128 * 10 + (255 - 128) * 128) div 255
         \<and> d' ! 1 ! 3 = 128
         \<and> d' ! 0 = [10, 20, 30, 255])"
proof -
  have h: "wf_Mat8U rgba8" "channels rgba8 = 4"
    "data rgba8 = Some ([10, 20, 30, 255] # replicate 63 [10, 20, 30, 128])"
    "0 < rows rgba8 * cols rgba8" "1 < rows rgba8 * cols rgba8"
    by (simp_all add: wf_rgba8) (simp_all add: rgba8_def)
  from blend_gray_background [OF h(1) h(2) h(3) h(4)]
       blend_gray_background [OF h(1) h(2) h(3) h(5)]
  obtain d1 d2 where
    "data (blend_loop rgba8 (rows rgba8 * cols rgba8)) = Some d1" "d1 ! 0 = [10, 20, 30, 255]"
    "data (blend_loop rgba8 (rows rgba8 * cols rgba8)) = Some d2"
    "uint (d2 ! 1 ! 0) = (128 * 10 + (255 - 128) * 128) div 255" "d2 ! 1 ! 3 = 128"
    by auto
  moreover have "rows rgba8 * cols rgba8 = 64" by (simp add: rgba8_def)
  ultimately show ?thesis using h by auto
qed

end
